theory Spec2Isabelle
  imports Complex_Main
begin

section \<open>JavaScript values used by app\_logic.js\<close>

text \<open>
  A JavaScript number that the helpers compute is either an integer or \<open>NaN\<close>
  (the result of arithmetic on \<open>undefined\<close>). Strings are character lists; an
  array is a list, and a read past its end is \<open>undefined\<close> (\<open>None\<close>).
\<close>

datatype jsnum = NaN | Num int

fun js_add :: "jsnum \<Rightarrow> jsnum \<Rightarrow> jsnum" where
  "js_add (Num a) (Num b) = Num (a + b)"
| "js_add _ _ = NaN"

fun js_sub :: "jsnum \<Rightarrow> jsnum \<Rightarrow> jsnum" where
  "js_sub (Num a) (Num b) = Num (a - b)"
| "js_sub _ _ = NaN"

fun js_mul :: "jsnum \<Rightarrow> jsnum \<Rightarrow> jsnum" where
  "js_mul (Num a) (Num b) = Num (a * b)"
| "js_mul _ _ = NaN"

text \<open>\<open>xs[i]\<close> on an array or a string, for a non-negative index.\<close>

definition array_get :: "'a list \<Rightarrow> nat \<Rightarrow> 'a option" where
  "array_get xs i = (if i < length xs then Some (xs ! i) else None)"

text \<open>\<open>xs[i]\<close> for an integer index that may be negative (no such property).\<close>

definition array_get_int :: "'a list \<Rightarrow> int \<Rightarrow> 'a option" where
  "array_get_int xs i = (if 0 \<le> i then array_get xs (nat i) else None)"

text \<open>\<open>word.charCodeAt(i)\<close>: the code of the character, \<open>NaN\<close> past the end.\<close>

definition charCodeAt :: "string \<Rightarrow> nat \<Rightarrow> jsnum" where
  "charCodeAt word i = (case array_get word i of None \<Rightarrow> NaN | Some c \<Rightarrow> Num (of_char c))"

text \<open>
  The conversion of a number stored into an \<open>Int32Array\<close> or passed to a 32-bit
  parameter of the compiled module: \<open>NaN\<close> becomes 0, an integer wraps to 32 bits.
\<close>

definition toInt32 :: "jsnum \<Rightarrow> int" where
  "toInt32 x = (case x of NaN \<Rightarrow> 0 | Num n \<Rightarrow> (n + 2 ^ 31) mod 2 ^ 32 - 2 ^ 31)"

section \<open>Helper functions\<close>

text \<open>
  \<open>COLOR_MAP\<close>: the colour keys of the solver. Any other key (also an inherited
  property such as \<open>constructor\<close>) gives a value whose product with a weight is
  \<open>NaN\<close>.
\<close>

definition COLOR_MAP :: "string \<rightharpoonup> int" where
  "COLOR_MAP = [''_'' \<mapsto> 0, ''Y'' \<mapsto> 1, ''G'' \<mapsto> 2]"

text \<open>
  \<open>intVecToString\<close>: \<open>word += LETTERS[charInt]\<close> for every element. \<open>LETTERS\<close>
  is imported from the data module; the function takes it as a parameter (an array
  of strings, or a string read as its one-character strings). A missing entry is
  \<open>undefined\<close>, which \<open>+=\<close> appends as the text \<open>undefined\<close>.
\<close>

definition letterAt :: "string list \<Rightarrow> int \<Rightarrow> string" where
  "letterAt LETTERS charInt =
     (case array_get_int LETTERS charInt of None \<Rightarrow> ''undefined'' | Some s \<Rightarrow> s)"

definition intVecToString :: "string list \<Rightarrow> int list \<Rightarrow> string" where
  "intVecToString LETTERS intArray =
     fold (\<lambda>charInt word. word @ letterAt LETTERS charInt) intArray []"

text \<open>\<open>stringToIntVec\<close>: five pushes of \<open>word.charCodeAt(i) - baseCharCode + 1\<close>.\<close>

definition baseCharCode :: jsnum where
  "baseCharCode = charCodeAt ''A'' 0"

definition stringToIntVec :: "string \<Rightarrow> jsnum list" where
  "stringToIntVec word =
     fold (\<lambda>i ints. ints @ [js_add (js_sub (charCodeAt word i) baseCharCode) (Num 1)])
       [0..<5] []"

text \<open>\<open>encodePattern\<close>: \<open>pattern += COLOR_MAP[fbArray[i]] * weights[i]\<close> for i = 0..4.\<close>

definition weights :: "int list" where
  "weights = [1, 3, 9, 27, 81]"

definition colorValue :: "string option \<Rightarrow> jsnum" where
  "colorValue key =
     (case key of None \<Rightarrow> NaN
      | Some k \<Rightarrow> (case COLOR_MAP k of None \<Rightarrow> NaN | Some c \<Rightarrow> Num c))"

definition encodePattern :: "string list \<Rightarrow> jsnum" where
  "encodePattern fbArray =
     fold (\<lambda>i pattern. js_add pattern (js_mul (colorValue (array_get fbArray i)) (Num (weights ! i))))
       [0..<5] (Num 0)"

text \<open>\<open>nextColor\<close>: \<open>indexOf\<close> gives -1 for an unknown key, so the cycle restarts.\<close>

definition nextColor :: "string \<Rightarrow> string" where
  "nextColor current =
     (let cycle = [''_'', ''Y'', ''G''];
          idx = (if current = ''_'' then 0 else if current = ''Y'' then 1
                 else if current = ''G'' then 2 else -1 :: int)
      in cycle ! nat ((idx + 1) mod int (length cycle)))"

section \<open>The heap of the compiled module\<close>

text \<open>
  \<open>Module.HEAP32\<close> is the module's linear memory read as 32-bit integers: a list
  of integers, element \<open>k\<close> at byte address \<open>4 * k\<close>. Pointers are byte addresses.
  A typed-array constructor or \<open>set\<close> that leaves the buffer throws \<open>RangeError\<close>;
  a property read on an undefined \<open>Module\<close> throws \<open>TypeError\<close>.
\<close>

datatype js_error = RangeError | TypeError

type_synonym heap32 = "int list"

text \<open>\<open>new Int32Array(Module.HEAP32.buffer, byteOffset, len)\<close>.\<close>

definition int32_view :: "heap32 \<Rightarrow> int \<Rightarrow> int \<Rightarrow> js_error + int list" where
  "int32_view h byteOffset len =
     (if byteOffset < 0 \<or> len < 0 \<or> byteOffset mod 4 \<noteq> 0
         \<or> byteOffset + 4 * len > 4 * int (length h)
      then Inl RangeError
      else Inr (take (nat len) (drop (nat (byteOffset div 4)) h)))"

text \<open>
  The numbers of a \<open>Float64Array\<close>: \<open>NaN\<close>, or a real number or an infinity. The
  order is that of \<open><\<close> on JavaScript numbers; minus zero is the number 0, which
  \<open><\<close> and \<open>===\<close> do not tell from plus zero.
\<close>

datatype xreal = NegInf | Fin real | PosInf

instantiation xreal :: linorder
begin

fun less_eq_xreal :: "xreal \<Rightarrow> xreal \<Rightarrow> bool" where
  "less_eq_xreal NegInf _ = True"
| "less_eq_xreal (Fin x) NegInf = False"
| "less_eq_xreal (Fin x) (Fin y) = (x \<le> y)"
| "less_eq_xreal (Fin x) PosInf = True"
| "less_eq_xreal PosInf PosInf = True"
| "less_eq_xreal PosInf _ = False"

definition less_xreal :: "xreal \<Rightarrow> xreal \<Rightarrow> bool" where
  "less_xreal a b \<longleftrightarrow> a \<le> b \<and> \<not> b \<le> a"

instance
proof
  fix x y z :: xreal
  show "(x < y) = (x \<le> y \<and> \<not> y \<le> x)" by (simp add: less_xreal_def)
  show "x \<le> x" by (cases x) simp_all
  show "x \<le> y \<Longrightarrow> y \<le> z \<Longrightarrow> x \<le> z" by (cases x; cases y; cases z) simp_all
  show "x \<le> y \<Longrightarrow> y \<le> x \<Longrightarrow> x = y" by (cases x; cases y) simp_all
  show "x \<le> y \<or> y \<le> x" by (cases x; cases y) auto
qed

end

datatype jsfloat = FNaN | Flt xreal

text \<open>\<open>a < b\<close> and \<open>a === b\<close> on numbers: false as soon as one side is \<open>NaN\<close>.\<close>

fun js_lt :: "jsfloat \<Rightarrow> jsfloat \<Rightarrow> bool" where
  "js_lt (Flt a) (Flt b) = (a < b)"
| "js_lt _ _ = False"

fun js_eq :: "jsfloat \<Rightarrow> jsfloat \<Rightarrow> bool" where
  "js_eq (Flt a) (Flt b) = (a = b)"
| "js_eq _ _ = False"

text \<open>
  The number that a \<open>Float64Array\<close> shows for two consecutive 32-bit words of the
  buffer, the low word first (binary64, little-endian): one sign bit, eleven
  exponent bits, fifty-two fraction bits.
\<close>

definition float64_of_words :: "int \<Rightarrow> int \<Rightarrow> jsfloat" where
  "float64_of_words lo hi =
     (let bits = (hi mod 2 ^ 32) * 2 ^ 32 + lo mod 2 ^ 32;
          negative = (bits div 2 ^ 63 = 1);
          e = (bits div 2 ^ 52) mod 2 ^ 11;
          m = bits mod 2 ^ 52;
          magnitude = (if e = 0 then real_of_int m / 2 ^ 1074
                       else if 1075 \<le> e then real_of_int (2 ^ 52 + m) * 2 ^ nat (e - 1075)
                       else real_of_int (2 ^ 52 + m) / 2 ^ nat (1075 - e))
      in if e = 2047 then (if m = 0 then Flt (if negative then NegInf else PosInf) else FNaN)
         else Flt (Fin (if negative then - magnitude else magnitude)))"

text \<open>
  \<open>new Float64Array(Module.HEAPF64.buffer, ptr, n)\<close>: \<open>HEAPF64\<close> and \<open>HEAP32\<close> are
  views of the same buffer, so the numbers are those of the heap's words from
  \<open>ptr\<close> on, two words each.
\<close>

definition float64_view :: "heap32 \<Rightarrow> nat \<Rightarrow> nat \<Rightarrow> js_error + jsfloat list" where
  "float64_view h ptr n =
     (if ptr mod 8 \<noteq> 0 \<or> ptr + 8 * n > 4 * length h then Inl RangeError
      else Inr (map (\<lambda>i. float64_of_words (h ! (ptr div 4 + 2 * i)) (h ! (ptr div 4 + 2 * i + 1)))
                  [0..<n]))"

text \<open>\<open>Module.HEAP32.set(source, offset)\<close>: every element is converted to 32 bits.\<close>

definition heap_set :: "heap32 \<Rightarrow> jsnum list \<Rightarrow> nat \<Rightarrow> js_error + heap32" where
  "heap_set h source offset =
     (if offset + length source > length h then Inl RangeError
      else Inr (take offset h @ map toInt32 source @ drop (offset + length source) h))"

section \<open>Global state\<close>

text \<open>The object \<open>STATE\<close>; a history entry is the pair (word, fb).\<close>

record state =
  currentCandidates :: "int list"
  currentGuessWord :: string
  feedbackState :: "string list"
  history :: "(string \<times> string list) list"
  gameOver :: bool
  isCalculating :: bool

text \<open>The object \<open>WASM_PTR\<close>.\<close>

record wasm_ptr =
  guessesFlat :: nat
  isPossibleAnswer :: nat
  currentCandidatesA :: nat
  currentCandidatesB :: nat
  scores :: nat
  guessWordVec :: nat

text \<open>
  The globals together. \<open>Module\<close> is \<open>None\<close> while the module or its \<open>HEAP32\<close>
  is not there yet, and its heap afterwards.
\<close>

record app =
  Module :: "heap32 option"
  WASM_PTR :: wasm_ptr
  STATE :: state

text \<open>The constants imported from the data module, which the functions only read.\<close>

record solver_data =
  ALL_GUESSES_FLAT :: "int list"
  N_TOTAL_GUESSES :: nat
  IS_POSSIBLE_ANSWER_MASK :: "int list"
  INITIAL_CANDIDATE_START_POSITIONS :: "int list"
  LETTERS :: "string list"

text \<open>
  The exports of the compiled module are parameters of the functions that call them.

  \<open>_cpp_calculate_scores_wasm(guesses_ptr, n_guesses, candidates_ptr, n_cands,
  scores_ptr, is_minimax)\<close> writes the scores into the heap and returns nothing:
  the parameter gives the heap after the call from the heap before it and the
  arguments.

  \<open>_cpp_filter_candidates_wasm(guess_ptr, pattern, all_guesses_ptr, old_cands_ptr,
  n_old, new_cands_ptr)\<close> returns the remaining count and writes into the heap.

  \<open>_malloc(size)\<close> returns a pointer and may change the heap.
\<close>

type_synonym scores_kernel =
  "heap32 \<Rightarrow> nat \<Rightarrow> nat \<Rightarrow> nat \<Rightarrow> nat \<Rightarrow> nat \<Rightarrow> int \<Rightarrow> heap32"

type_synonym filter_kernel =
  "heap32 \<Rightarrow> nat \<Rightarrow> int \<Rightarrow> nat \<Rightarrow> nat \<Rightarrow> nat \<Rightarrow> nat \<Rightarrow> int \<times> heap32"

type_synonym malloc_fn = "heap32 \<Rightarrow> nat \<Rightarrow> nat \<times> heap32"

section \<open>calculateBestGuess\<close>

text \<open>
  One iteration of the loop "2. Determine Best Score(s) and Indices"; \<open>bestScore\<close>
  starts at \<open>Infinity\<close> or \<open>-Infinity\<close>.
\<close>

definition bestStep ::
  "bool \<Rightarrow> jsfloat list \<Rightarrow> nat \<Rightarrow> jsfloat \<times> nat list \<Rightarrow> jsfloat \<times> nat list" where
  "bestStep useMinimax scoresArray i acc =
     (let bestScore = fst acc; bestIndices = snd acc; score = scoresArray ! i in
      if useMinimax then
        (if js_lt score bestScore then (score, [i])
         else if js_eq score bestScore then (bestScore, bestIndices @ [i])
         else (bestScore, bestIndices))
      else
        (if js_lt bestScore score then (score, [i])
         else if js_eq score bestScore then (bestScore, bestIndices @ [i])
         else (bestScore, bestIndices)))"

definition findBest :: "bool \<Rightarrow> jsfloat list \<Rightarrow> nat \<Rightarrow> jsfloat \<times> nat list" where
  "findBest useMinimax scoresArray n =
     fold (bestStep useMinimax scoresArray) [0..<n]
       (Flt (if useMinimax then PosInf else NegInf), [])"

text \<open>\<open>Math.max(...xs)\<close>: \<open>-Infinity\<close> for no argument, \<open>NaN\<close> if an argument is.\<close>

fun js_max :: "jsfloat \<Rightarrow> jsfloat \<Rightarrow> jsfloat" where
  "js_max (Flt a) (Flt b) = Flt (max a b)"
| "js_max _ _ = FNaN"

definition Math_max :: "jsfloat list \<Rightarrow> jsfloat" where
  "Math_max xs = fold (\<lambda>x m. js_max m x) xs (Flt NegInf)"

text \<open>
  Tie-break A: \<open>subsetScores\<close>, \<open>maxEntropy\<close>, and the filter on the position
  \<open>idx\<close> within \<open>bestIndices\<close>.
\<close>

definition entropyTieBreak :: "jsfloat list \<Rightarrow> nat list \<Rightarrow> nat list" where
  "entropyTieBreak entropyScores bestIndices =
     (let subsetScores = map (\<lambda>i. entropyScores ! i) bestIndices;
          maxEntropy = Math_max subsetScores
      in map fst (filter (\<lambda>(_, idx). js_eq (subsetScores ! idx) maxEntropy)
                    (zip bestIndices [0..<length bestIndices])))"

text \<open>Tie-break B: \<open>possibleAnswerMask[i] === 1\<close>.\<close>

definition answerTieBreak :: "int list \<Rightarrow> nat list \<Rightarrow> nat list" where
  "answerTieBreak possibleAnswerMask bestIndices =
     (let answerIndices = filter (\<lambda>i. array_get possibleAnswerMask i = Some 1) bestIndices
      in if length answerIndices > 0 then answerIndices else bestIndices)"

text \<open>The metric choice and the value passed as \<open>is_minimax\<close>.\<close>

definition useMinimax :: "nat \<Rightarrow> bool" where
  "useMinimax nCand \<longleftrightarrow> nCand < 31"

definition isMinimax :: "nat \<Rightarrow> int" where
  "isMinimax nCand = (if useMinimax nCand then 1 else 0)"

text \<open>
  The call \<open>Module._cpp_calculate_scores_wasm(WASM_PTR.guessesFlat, N_TOTAL_GUESSES,
  WASM_PTR.currentCandidatesA, nCand, WASM_PTR.scores, flag)\<close>: the heap after it.
\<close>

definition scoreCall ::
  "solver_data \<Rightarrow> scores_kernel \<Rightarrow> heap32 \<Rightarrow> wasm_ptr \<Rightarrow> nat \<Rightarrow> int \<Rightarrow> heap32" where
  "scoreCall D calc h p nCand flag =
     calc h (guessesFlat p) (N_TOTAL_GUESSES D) (currentCandidatesA p) nCand (scores p) flag"

text \<open>
  Steps 1 and 2: the primary call, the view of the scores, the loop. The result is
  the heap after the call and \<open>bestIndices\<close>.
\<close>

definition primaryPass ::
  "solver_data \<Rightarrow> scores_kernel \<Rightarrow> heap32 \<Rightarrow> wasm_ptr \<Rightarrow> nat \<Rightarrow> js_error + heap32 \<times> nat list" where
  "primaryPass D calc h p nCand =
     (let h1 = scoreCall D calc h p nCand (isMinimax nCand) in
      case float64_view h1 (scores p) (N_TOTAL_GUESSES D) of
        Inl e \<Rightarrow> Inl e
      | Inr scoresArray \<Rightarrow>
          Inr (h1, snd (findBest (useMinimax nCand) scoresArray (N_TOTAL_GUESSES D))))"

text \<open>Step 3 A, from the heap and \<open>bestIndices\<close> of the primary pass.\<close>

definition entropyPass ::
  "solver_data \<Rightarrow> scores_kernel \<Rightarrow> wasm_ptr \<Rightarrow> nat \<Rightarrow> heap32 \<times> nat list
     \<Rightarrow> js_error + heap32 \<times> nat list" where
  "entropyPass D calc p nCand hb =
     (let h1 = fst hb; bestIndices = snd hb in
      if length bestIndices > 1 \<and> useMinimax nCand then
        (let h2 = scoreCall D calc h1 p nCand 0 in
         case float64_view h2 (scores p) (N_TOTAL_GUESSES D) of
           Inl e \<Rightarrow> Inl e
         | Inr entropyScores \<Rightarrow> Inr (h2, entropyTieBreak entropyScores bestIndices))
      else Inr (h1, bestIndices))"

text \<open>Step 3 B, which reads the mask through a view of the heap.\<close>

definition answerPass ::
  "solver_data \<Rightarrow> wasm_ptr \<Rightarrow> heap32 \<times> nat list \<Rightarrow> js_error + heap32 \<times> nat list" where
  "answerPass D p hb =
     (let h = fst hb; bestIndices = snd hb in
      if length bestIndices > 1 then
        (case int32_view h (int (isPossibleAnswer p)) (int (N_TOTAL_GUESSES D)) of
           Inl e \<Rightarrow> Inl e
         | Inr possibleAnswerMask \<Rightarrow> Inr (h, answerTieBreak possibleAnswerMask bestIndices))
      else Inr (h, bestIndices))"

text \<open>
  The read of the short-circuit: five integers at \<open>guessesFlat + startPos * 4\<close>.
\<close>

definition readAtStartPos :: "heap32 \<Rightarrow> wasm_ptr \<Rightarrow> int \<Rightarrow> js_error + int list" where
  "readAtStartPos h p startPos = int32_view h (int (guessesFlat p) + startPos * 4) 5"

text \<open>
  The read of the final selection and of the solved branch of the submit handler:
  \<open>wordStartPos = index * 5\<close>, five integers at \<open>guessesFlat + wordStartPos * 4\<close>.
\<close>

definition readAtIndex :: "heap32 \<Rightarrow> wasm_ptr \<Rightarrow> int \<Rightarrow> js_error + int list" where
  "readAtIndex h p wordIndex =
     (let wordStartPos = wordIndex * 5
      in int32_view h (int (guessesFlat p) + wordStartPos * 4) 5)"

text \<open>
  \<open>finalGuessIndex = bestIndices[0]\<close>. For an empty list it is \<open>undefined\<close>, the
  byte offset is \<open>NaN\<close>, and the constructor reads from byte 0.
\<close>

definition readFinalGuess :: "heap32 \<Rightarrow> wasm_ptr \<Rightarrow> nat list \<Rightarrow> js_error + int list" where
  "readFinalGuess h p bestIndices =
     (case bestIndices of
        [] \<Rightarrow> int32_view h 0 5
      | finalGuessIndex # _ \<Rightarrow> readAtIndex h p (int finalGuessIndex))"

text \<open>
  Step 4: the word of \<open>bestIndices[0]\<close> becomes the guess, and \<open>isCalculating\<close>
  is reset. The heap is the one the exports left.
\<close>

definition finalSelection :: "solver_data \<Rightarrow> app \<Rightarrow> heap32 \<times> nat list \<Rightarrow> js_error + app" where
  "finalSelection D a hb =
     (case readFinalGuess (fst hb) (WASM_PTR a) (snd hb) of
        Inl e \<Rightarrow> Inl e
      | Inr wordInts \<Rightarrow>
          Inr (a\<lparr>Module := Some (fst hb),
                 STATE := (STATE a)\<lparr>currentGuessWord := intVecToString (LETTERS D) wordInts,
                                     isCalculating := False\<rparr>\<rparr>))"

text \<open>Steps 3 B and 4; and steps 3 A, 3 B and 4.\<close>

definition answersAndSelect :: "solver_data \<Rightarrow> app \<Rightarrow> heap32 \<times> nat list \<Rightarrow> js_error + app" where
  "answersAndSelect D a hb =
     (case answerPass D (WASM_PTR a) hb of
        Inl e \<Rightarrow> Inl e
      | Inr hb' \<Rightarrow> finalSelection D a hb')"

definition tieBreaksAndSelect ::
  "solver_data \<Rightarrow> scores_kernel \<Rightarrow> app \<Rightarrow> nat \<Rightarrow> heap32 \<times> nat list \<Rightarrow> js_error + app" where
  "tieBreaksAndSelect D calc a nCand hb =
     (case entropyPass D calc (WASM_PTR a) nCand hb of
        Inl e \<Rightarrow> Inl e
      | Inr hb' \<Rightarrow> answersAndSelect D a hb')"

text \<open>
  \<open>calculateBestGuess\<close>. It contains no \<open>await\<close>, so it runs to its end when it is
  called. \<open>updateStatusDisplay\<close> writes the page only and is left out. An exception
  ends the function with the error.
\<close>

definition calculateBestGuess :: "solver_data \<Rightarrow> scores_kernel \<Rightarrow> app \<Rightarrow> js_error + app" where
  "calculateBestGuess D calc a =
     (case Module a of
        None \<Rightarrow> Inl TypeError
      | Some h \<Rightarrow>
          (let st = STATE a; p = WASM_PTR a in
           if length (currentCandidates st) = 1 then
             (let startPos = currentCandidates st ! 0 in
              case readAtStartPos h p startPos of
                Inl e \<Rightarrow> Inl e
              | Inr wordInts \<Rightarrow>
                  Inr (a\<lparr>STATE := st\<lparr>currentGuessWord := intVecToString (LETTERS D) wordInts\<rparr>\<rparr>))
           else
             (let nCand = length (currentCandidates st) in
              case primaryPass D calc h p nCand of
                Inl e \<Rightarrow> Inl e
              | Inr hb \<Rightarrow> tieBreaksAndSelect D calc a nCand hb)))"

section \<open>Event handlers\<close>

text \<open>
  \<open>handleSubmitFeedback(event)\<close>. The argument is \<open>event.key\<close> where the event
  has one (\<open>None\<close> for a click). The display functions write the page only and are
  left out. \<open>calculateBestGuess\<close> has run to its end when the \<open>await\<close> on it
  suspends the handler; the rest of the handler follows as a microtask, before any
  other event. An exception ends the handler with the error.
\<close>

definition blankFeedback :: "string list" where
  "blankFeedback = [''_'', ''_'', ''_'', ''_'', ''_'']"

definition handleSubmitFeedback ::
  "solver_data \<Rightarrow> scores_kernel \<Rightarrow> filter_kernel \<Rightarrow> string option \<Rightarrow> app \<Rightarrow> js_error + app" where
  "handleSubmitFeedback D calc filt eventKey a =
     (if (case eventKey of None \<Rightarrow> False | Some k \<Rightarrow> k \<noteq> [] \<and> k \<noteq> ''Enter'') then Inr a
      else case Module a of
        None \<Rightarrow> Inr a
      | Some h \<Rightarrow>
          (let st = STATE a; p = WASM_PTR a in
           if gameOver st \<or> isCalculating st then Inr a
           else
             (let st1 = st\<lparr>history := history st @ [(currentGuessWord st, feedbackState st)]\<rparr> in
              if list_all (\<lambda>c. c = ''G'') (feedbackState st1) then
                Inr (a\<lparr>STATE := st1\<lparr>gameOver := True\<rparr>\<rparr>)
              else
                (let patternInt = encodePattern (feedbackState st1);
                     oldCandCount = length (currentCandidates st1);
                     guessIntVec = stringToIntVec (currentGuessWord st1)
                 in case heap_set h guessIntVec (guessWordVec p div 4) of
                   Inl e \<Rightarrow> Inl e
                 | Inr h1 \<Rightarrow>
                     (let res = filt h1 (guessWordVec p) (toInt32 patternInt) (guessesFlat p)
                                  (currentCandidatesA p) oldCandCount (currentCandidatesB p);
                          remainingCount = fst res; h2 = snd res
                      in
                      if remainingCount = 0 then
                        Inr (a\<lparr>Module := Some h2,
                               STATE := st1\<lparr>gameOver := True, currentGuessWord := ''ERROR'',
                                            feedbackState := [''E'', ''R'', ''R'', ''O'', ''R'']\<rparr>\<rparr>)
                      else if remainingCount = 1 then
                        (case int32_view h2 (int (currentCandidatesB p)) 1 of
                           Inl e \<Rightarrow> Inl e
                         | Inr view \<Rightarrow>
                             (let finalWordIndex = view ! 0 in
                              case readAtIndex h2 p finalWordIndex of
                                Inl e \<Rightarrow> Inl e
                              | Inr wordInts \<Rightarrow>
                                  Inr (a\<lparr>Module := Some h2,
                                         STATE := st1\<lparr>gameOver := True,
                                                      currentGuessWord := intVecToString (LETTERS D) wordInts,
                                                      feedbackState := [''G'', ''G'', ''G'', ''G'', ''G'']\<rparr>\<rparr>)))
                      else
                        (case int32_view h2 (int (currentCandidatesB p)) remainingCount of
                           Inl e \<Rightarrow> Inl e
                         | Inr newCandidatesIndices \<Rightarrow>
                             (let a1 = a\<lparr>Module := Some h2,
                                         WASM_PTR := p\<lparr>currentCandidatesA := currentCandidatesB p,
                                                       currentCandidatesB := currentCandidatesA p\<rparr>,
                                         STATE := st1\<lparr>currentCandidates := newCandidatesIndices\<rparr>\<rparr>
                              in case calculateBestGuess D calc a1 of
                                Inl e \<Rightarrow> Inl e
                              | Inr a2 \<Rightarrow>
                                  Inr (a2\<lparr>STATE := (STATE a2)\<lparr>feedbackState := blankFeedback\<rparr>\<rparr>))))))))"

text \<open>\<open>handleResetApp\<close>.\<close>

definition handleResetApp :: "solver_data \<Rightarrow> app \<Rightarrow> js_error + app" where
  "handleResetApp D a =
     (let st = (STATE a)\<lparr>currentCandidates := INITIAL_CANDIDATE_START_POSITIONS D,
                         currentGuessWord := ''SOARE'',
                         feedbackState := blankFeedback,
                         history := [],
                         gameOver := False\<rparr>
      in case Module a of
        None \<Rightarrow> Inl TypeError
      | Some h \<Rightarrow>
          (case heap_set h (map Num (currentCandidates st)) (currentCandidatesA (WASM_PTR a) div 4) of
             Inl e \<Rightarrow> Inl e
           | Inr h1 \<Rightarrow> Inr (a\<lparr>Module := Some h1, STATE := st\<rparr>)))"

section \<open>Initialization\<close>

text \<open>
  \<open>initializeWasmMemory\<close>: six allocations and three copies, in the order of the
  source. It contains no test of its tables.
\<close>

definition initializeWasmMemory :: "solver_data \<Rightarrow> malloc_fn \<Rightarrow> app \<Rightarrow> js_error + app" where
  "initializeWasmMemory D malloc a =
     (let intSize = 4; doubleSize = 8; nTotal = N_TOTAL_GUESSES D in
      case Module a of
        None \<Rightarrow> Inl TypeError
      | Some h0 \<Rightarrow>
          (let m1 = malloc h0 (length (ALL_GUESSES_FLAT D) * intSize) in
           case heap_set (snd m1) (map Num (ALL_GUESSES_FLAT D)) (fst m1 div intSize) of
             Inl e \<Rightarrow> Inl e
           | Inr h1 \<Rightarrow>
               (let m2 = malloc h1 (length (IS_POSSIBLE_ANSWER_MASK D) * intSize) in
                case heap_set (snd m2) (map Num (IS_POSSIBLE_ANSWER_MASK D)) (fst m2 div intSize) of
                  Inl e \<Rightarrow> Inl e
                | Inr h2 \<Rightarrow>
                    (let m3 = malloc h2 (nTotal * intSize);
                         m4 = malloc (snd m3) (nTotal * intSize)
                     in case heap_set (snd m4) (map Num (INITIAL_CANDIDATE_START_POSITIONS D))
                               (fst m3 div intSize) of
                       Inl e \<Rightarrow> Inl e
                     | Inr h3 \<Rightarrow>
                         (let m5 = malloc h3 (nTotal * doubleSize);
                              m6 = malloc (snd m5) (5 * intSize)
                          in Inr (a\<lparr>Module := Some (snd m6),
                                    WASM_PTR := \<lparr>guessesFlat = fst m1, isPossibleAnswer = fst m2,
                                                 currentCandidatesA = fst m3, currentCandidatesB = fst m4,
                                                 scores = fst m5, guessWordVec = fst m6\<rparr>,
                                    STATE := (STATE a)\<lparr>currentCandidates :=
                                                         INITIAL_CANDIDATE_START_POSITIONS D\<rparr>\<rparr>))))))"

section \<open>Predicates and examples used in the statements\<close>

text \<open>
  A feedback pattern of the game: five slots, each Absent (\<open>_\<close>), Present (\<open>Y\<close>)
  or Correct (\<open>G\<close>).
\<close>

definition validPattern :: "string list \<Rightarrow> bool" where
  "validPattern fb \<longleftrightarrow> length fb = 5 \<and> set fb \<subseteq> {''_'', ''Y'', ''G''}"

text \<open>The value of a slot, and the key of a value; the digits of a code, lowest first.\<close>

definition slotValue :: "string \<Rightarrow> int" where
  "slotValue k = (if k = ''_'' then 0 else if k = ''Y'' then 1 else 2)"

definition colorKey :: "int \<Rightarrow> string" where
  "colorKey v = (if v = 0 then ''_'' else if v = 1 then ''Y'' else ''G'')"

definition decodePattern :: "int \<Rightarrow> string list" where
  "decodePattern n =
     (let q1 = n div 3; q2 = q1 div 3; q3 = q2 div 3; q4 = q3 div 3
      in [colorKey (n mod 3), colorKey (q1 mod 3), colorKey (q2 mod 3),
          colorKey (q3 mod 3), colorKey (q4 mod 3)])"

text \<open>
  The contract of the table \<open>LETTERS\<close>: entry \<open>i\<close>, for i from 1 to 26, is the
  i-th capital letter. Words of five capital letters, and vectors of five letter
  numbers.
\<close>

definition lettersTable :: "string list \<Rightarrow> bool" where
  "lettersTable L \<longleftrightarrow> (\<forall>i\<in>{1..26}. array_get_int L i = Some [char_of (64 + i)])"

definition upperWord :: "string \<Rightarrow> bool" where
  "upperWord w \<longleftrightarrow>
     length w = 5 \<and> (\<forall>c\<in>set w. 65 \<le> (of_char c :: int) \<and> (of_char c :: int) \<le> 90)"

definition letterVec :: "int list \<Rightarrow> bool" where
  "letterVec v \<longleftrightarrow> length v = 5 \<and> (\<forall>x\<in>set v. 1 \<le> x \<and> x \<le> 26)"

definition exampleLetters :: "string list" where
  "exampleLetters = map (\<lambda>c. [c]) '' ABCDEFGHIJKLMNOPQRSTUVWXYZ''"

text \<open>
  The heap holds the list \<open>T\<close> from the pointer \<open>ptr\<close> on.
\<close>

definition tableAt :: "heap32 \<Rightarrow> nat \<Rightarrow> int list \<Rightarrow> bool" where
  "tableAt h ptr T \<longleftrightarrow>
     ptr mod 4 = 0 \<and> ptr div 4 + length T \<le> length h \<and> take (length T) (drop (ptr div 4) h) = T"

text \<open>
  An example: a table of six words (AAAAA to FFFFF), four of them answers, laid out
  in a heap of 65 integers with the six buffers one after the other; a score export
  that returns fixed minimax and entropy scores.
\<close>

definition exampleTable :: "int list" where
  "exampleTable = [1, 1, 1, 1, 1,  2, 2, 2, 2, 2,  3, 3, 3, 3, 3,
                   4, 4, 4, 4, 4,  5, 5, 5, 5, 5,  6, 6, 6, 6, 6]"

definition exampleMask :: "int list" where
  "exampleMask = [1, 1, 0, 1, 0, 1]"

definition exampleData :: solver_data where
  "exampleData = \<lparr>ALL_GUESSES_FLAT = exampleTable, N_TOTAL_GUESSES = 6,
     IS_POSSIBLE_ANSWER_MASK = exampleMask,
     INITIAL_CANDIDATE_START_POSITIONS = [0, 5, 15, 25], LETTERS = exampleLetters\<rparr>"

definition exampleHeap :: heap32 where
  "exampleHeap = exampleTable @ exampleMask @ [0, 5, 15, 25, 0, 0] @ [0, 0, 0, 0, 0, 0]
     @ [0, 0, 0, 0, 0, 0, 0, 0, 0, 0, 0, 0] @ [0, 0, 0, 0, 0]"

definition examplePtr :: wasm_ptr where
  "examplePtr = \<lparr>guessesFlat = 0, isPossibleAnswer = 120, currentCandidatesA = 144,
     currentCandidatesB = 168, scores = 192, guessWordVec = 240\<rparr>"

definition exampleState :: state where
  "exampleState = \<lparr>currentCandidates = [0, 5, 15, 25], currentGuessWord = ''SOARE'',
     feedbackState = blankFeedback, history = [], gameOver = False, isCalculating = False\<rparr>"

definition exampleApp :: app where
  "exampleApp = \<lparr>Module = Some exampleHeap, WASM_PTR = examplePtr, STATE = exampleState\<rparr>"

text \<open>
  A score export for the examples. It writes doubles whose low words are 0 into the
  score buffer; the high words 1072693248, 1073741824, 1074266112, 1074790400 and
  1075052544 are those of 1.0, 2.0, 3.0, 4.0 and 5.0. For \<open>is_minimax = 1\<close> the
  scores are 3, 1, 1, 1, 2, 2, and otherwise 1, 4, 2, 4, 5, 1.
\<close>

definition writeWords :: "heap32 \<Rightarrow> nat \<Rightarrow> int list \<Rightarrow> heap32" where
  "writeWords h ptr ws = take (ptr div 4) h @ ws @ drop (ptr div 4 + length ws) h"

definition doubleWords :: "int list \<Rightarrow> int list" where
  "doubleWords his = concat (map (\<lambda>hi. [0, hi]) his)"

definition exampleScores :: scores_kernel where
  "exampleScores h gp n cp nc sp flag =
     writeWords h sp (doubleWords
       (if flag = 1
        then [1074266112, 1072693248, 1072693248, 1072693248, 1073741824, 1073741824]
        else [1072693248, 1074790400, 1073741824, 1074790400, 1075052544, 1072693248]))"

text \<open>The example heap after the call for the minimax scores, and for the entropies.\<close>

definition exampleHeapM :: heap32 where
  "exampleHeapM = exampleScores exampleHeap 0 6 144 4 192 1"

definition exampleHeapE :: heap32 where
  "exampleHeapE = exampleScores exampleHeapM 0 6 144 4 192 0"

text \<open>
  A second example: a table of 31 words, all of them answers and all of them
  candidates, laid out like the first. Its score export writes the minimax scores
  2, ..., 2 with 1 at index 3 and 5 at index 9, and the entropies 1, ..., 1 with 3 at
  index 7.
\<close>

definition bigTable :: "int list" where
  "bigTable = concat (map (\<lambda>k. replicate 5 (1 + int k mod 26)) [0..<31])"

definition bigCandidates :: "int list" where
  "bigCandidates = map (\<lambda>k. 5 * int k) [0..<31]"

definition bigData :: solver_data where
  "bigData = \<lparr>ALL_GUESSES_FLAT = bigTable, N_TOTAL_GUESSES = 31,
     IS_POSSIBLE_ANSWER_MASK = replicate 31 1,
     INITIAL_CANDIDATE_START_POSITIONS = bigCandidates, LETTERS = exampleLetters\<rparr>"

definition bigHeap :: heap32 where
  "bigHeap = bigTable @ replicate 31 1 @ bigCandidates @ replicate 31 0 @ replicate 62 0
     @ replicate 5 0"

definition bigPtr :: wasm_ptr where
  "bigPtr = \<lparr>guessesFlat = 0, isPossibleAnswer = 620, currentCandidatesA = 744,
     currentCandidatesB = 868, scores = 992, guessWordVec = 1240\<rparr>"

definition bigApp :: app where
  "bigApp = \<lparr>Module = Some bigHeap, WASM_PTR = bigPtr,
     STATE = exampleState\<lparr>currentCandidates := bigCandidates\<rparr>\<rparr>"

definition bigScores :: scores_kernel where
  "bigScores h gp n cp nc sp flag =
     writeWords h sp (doubleWords
       (if flag = 1
        then (replicate 31 1073741824)[3 := 1072693248, 9 := 1075052544]
        else (replicate 31 1072693248)[7 := 1074266112]))"

definition bigHeapE :: heap32 where
  "bigHeapE = bigScores bigHeap 0 31 744 31 992 0"

text \<open>
  The selection in the words of the specification, for scores that are numbers:
  the guess indices of least (or greatest) score, the tied indices of greatest
  entropy among the tied ones, the tied indices that the answer mask flags (all of
  them if it flags none), and the state in which the word of a guess index has
  become the guess.
\<close>

definition extremalIndices :: "bool \<Rightarrow> xreal list \<Rightarrow> nat \<Rightarrow> nat list" where
  "extremalIndices least sc n =
     filter (\<lambda>i. \<forall>j\<in>{0..<n}. if least then sc ! i \<le> sc ! j else sc ! j \<le> sc ! i)
       [0..<n]"

definition greatestAmong :: "xreal list \<Rightarrow> nat list \<Rightarrow> nat list" where
  "greatestAmong en tied = filter (\<lambda>i. \<forall>j\<in>set tied. en ! j \<le> en ! i) tied"

definition answersAmong :: "int list \<Rightarrow> nat list \<Rightarrow> nat list" where
  "answersAmong am tied =
     (if \<exists>i\<in>set tied. am ! i = 1 then filter (\<lambda>i. am ! i = 1) tied else tied)"

definition guessAtIndex :: "solver_data \<Rightarrow> app \<Rightarrow> heap32 \<Rightarrow> nat \<Rightarrow> js_error + app" where
  "guessAtIndex D a h i =
     (case readAtIndex h (WASM_PTR a) (int i) of
        Inl e \<Rightarrow> Inl e
      | Inr wordInts \<Rightarrow>
          Inr (a\<lparr>Module := Some h,
                 STATE := (STATE a)\<lparr>currentGuessWord := intVecToString (LETTERS D) wordInts,
                                     isCalculating := False\<rparr>\<rparr>))"

text \<open>The score buffer of a heap holds numbers (no \<open>NaN\<close>).\<close>

definition numberScores :: "heap32 \<Rightarrow> wasm_ptr \<Rightarrow> nat \<Rightarrow> bool" where
  "numberScores h p n \<longleftrightarrow> (\<exists>sc. float64_view h (scores p) n = Inr (map Flt sc))"

text \<open>
  Filter exports for the examples: one that keeps no candidate, one that keeps the
  old candidate at position \<open>k\<close>, one that keeps every old candidate.
\<close>

definition keepNone :: filter_kernel where
  "keepNone h gp pat ap op n np = (0, h)"

definition keepEntry :: "nat \<Rightarrow> filter_kernel" where
  "keepEntry k h gp pat ap op n np = (1, h[np div 4 := h ! (op div 4 + k)])"

definition keepAll :: filter_kernel where
  "keepAll h gp pat ap op n np =
     (int n, take (np div 4) h @ take n (drop (op div 4) h) @ drop (np div 4 + n) h)"

text \<open>
  An allocator for the examples: the block is appended to the heap. An allocator
  whose blocks lie inside the heap it returns, and which never shrinks the heap.
\<close>

definition bumpMalloc :: malloc_fn where
  "bumpMalloc h n = (4 * length h, h @ replicate ((n + 3) div 4) 0)"

definition blockInHeap :: "malloc_fn \<Rightarrow> bool" where
  "blockInHeap malloc \<longleftrightarrow>
     (\<forall>h n. fst (malloc h n) + n \<le> 4 * length (snd (malloc h n)) \<and>
            length h \<le> length (snd (malloc h n)))"

text \<open>
  The globals as the source declares them, with a module whose heap is still empty.
\<close>

definition initialState :: state where
  "initialState = \<lparr>currentCandidates = [], currentGuessWord = ''SOARE'',
     feedbackState = blankFeedback, history = [], gameOver = False, isCalculating = False\<rparr>"

definition initialPtr :: wasm_ptr where
  "initialPtr = \<lparr>guessesFlat = 0, isPossibleAnswer = 0, currentCandidatesA = 0,
     currentCandidatesB = 0, scores = 0, guessWordVec = 0\<rparr>"

definition initialApp :: app where
  "initialApp = \<lparr>Module = Some [], WASM_PTR = initialPtr, STATE = initialState\<rparr>"

text \<open>
  Tables that break the contract: one word of three letters, a mask of two entries.
\<close>

definition badData :: solver_data where
  "badData = \<lparr>ALL_GUESSES_FLAT = [1, 2, 3], N_TOTAL_GUESSES = 1,
     IS_POSSIBLE_ANSWER_MASK = [1, 0],
     INITIAL_CANDIDATE_START_POSITIONS = [0], LETTERS = exampleLetters\<rparr>"

text \<open>The example with a single candidate left, the entry 5.\<close>

definition singleApp :: app where
  "singleApp = exampleApp\<lparr>STATE := exampleState\<lparr>currentCandidates := [5]\<rparr>\<rparr>"

text \<open>The example with all five tiles marked green.\<close>

definition greenFeedback :: "string list" where
  "greenFeedback = [''G'', ''G'', ''G'', ''G'', ''G'']"

definition greenApp :: app where
  "greenApp = exampleApp\<lparr>STATE := exampleState\<lparr>feedbackState := greenFeedback\<rparr>\<rparr>"

text \<open>
  Parts of the states the submit handler produces: the state with the guess and its
  feedback appended to the history, the feedback of the error state, the pointers
  with the two candidate buffers swapped.
\<close>

definition recorded :: "state \<Rightarrow> state" where
  "recorded st = st\<lparr>history := history st @ [(currentGuessWord st, feedbackState st)]\<rparr>"

definition errorFeedback :: "string list" where
  "errorFeedback = [''E'', ''R'', ''R'', ''O'', ''R'']"

definition swappedPtr :: "wasm_ptr \<Rightarrow> wasm_ptr" where
  "swappedPtr p = p\<lparr>currentCandidatesA := currentCandidatesB p,
                      currentCandidatesB := currentCandidatesA p\<rparr>"

text \<open>
  The example heap after the guess \<open>SOARE\<close> is written to the guess buffer, and
  after the four candidates are written to buffer B.
\<close>

definition exampleHeap1 :: heap32 where
  "exampleHeap1 = take 60 exampleHeap @ [19, 15, 1, 18, 5]"

definition exampleHeap2 :: heap32 where
  "exampleHeap2 = take 42 exampleHeap1 @ [0, 5, 15, 25] @ drop 46 exampleHeap1"

text \<open>
  The heap after buffer B is written and the score export has then run for the
  minimax scores and for the entropies (the pointers of the two buffers swapped).
\<close>

definition exampleHeap3 :: heap32 where
  "exampleHeap3 = exampleScores (exampleScores exampleHeap2 0 6 168 4 192 1) 0 6 168 4 192 0"

text \<open>What the initialization leaves for the tables that break the contract.\<close>

definition badApp :: app where
  "badApp = \<lparr>Module = Some [1, 2, 3, 1, 0, 0, 0, 0, 0, 0, 0, 0, 0, 0],
     WASM_PTR = \<lparr>guessesFlat = 0, isPossibleAnswer = 12, currentCandidatesA = 20,
                  currentCandidatesB = 24, scores = 28, guessWordVec = 36\<rparr>,
     STATE = initialState\<lparr>currentCandidates := [0]\<rparr>\<rparr>"

section \<open>Lists of five\<close>

lemma upt_0_5: "[0..<5] = [0, 1, 2, 3, 4]"
  by code_simp

lemma five_list: "length fb = 5 \<Longrightarrow> \<exists>a b c d e. fb = [a,b,c,d,e]"
  by (auto simp: length_Suc_conv eval_nat_numeral)

section \<open>The pattern encoding\<close>

lemma encodePattern_five:
  "encodePattern [a, b, c, d, e] =
     js_add (js_add (js_add (js_add (js_add (Num 0)
       (js_mul (colorValue (Some a)) (Num 1)))
       (js_mul (colorValue (Some b)) (Num 3)))
       (js_mul (colorValue (Some c)) (Num 9)))
       (js_mul (colorValue (Some d)) (Num 27)))
       (js_mul (colorValue (Some e)) (Num 81))"
  by (simp add: encodePattern_def upt_0_5 array_get_def weights_def)

lemma colorValue_key:
  "k \<in> {''_'', ''Y'', ''G''} \<Longrightarrow> colorValue (Some k) = Num (slotValue k)"
  by (auto simp: colorValue_def COLOR_MAP_def slotValue_def)

lemma slotValue_range: "0 \<le> slotValue k \<and> slotValue k \<le> 2"
  by (simp add: slotValue_def)

lemma colorKey_slotValue: "k \<in> {''_'', ''Y'', ''G''} \<Longrightarrow> colorKey (slotValue k) = k"
  by (auto simp: colorKey_def slotValue_def)

lemma colorKey_valid: "colorKey v \<in> {''_'', ''Y'', ''G''}"
  by (simp add: colorKey_def)

lemma slotValue_colorKey: "0 \<le> v \<Longrightarrow> v \<le> 2 \<Longrightarrow> slotValue (colorKey v) = v"
  by (auto simp: colorKey_def slotValue_def)

lemma encodePattern_valid:
  assumes "validPattern [a, b, c, d, e]"
  shows "encodePattern [a, b, c, d, e] =
           Num (slotValue a + 3 * slotValue b + 9 * slotValue c + 27 * slotValue d + 81 * slotValue e)"
  using assms by (simp add: validPattern_def encodePattern_five colorValue_key)

lemma digit_peel:
  fixes a m :: int
  assumes "0 \<le> a" "a \<le> 2"
  shows "(a + 3 * m) mod 3 = a" "(a + 3 * m) div 3 = m"
  using assms by auto

lemma decode_encode:
  assumes "validPattern [a, b, c, d, e]"
  shows "decodePattern (slotValue a + 3 * slotValue b + 9 * slotValue c + 27 * slotValue d + 81 * slotValue e)
           = [a, b, c, d, e]"
proof -
  let ?n4 = "slotValue e"
  let ?n3 = "slotValue d + 3 * ?n4"
  let ?n2 = "slotValue c + 3 * ?n3"
  let ?n1 = "slotValue b + 3 * ?n2"
  let ?n0 = "slotValue a + 3 * ?n1"
  have n: "slotValue a + 3 * slotValue b + 9 * slotValue c + 27 * slotValue d + 81 * slotValue e = ?n0"
    by simp
  have k: "colorKey (slotValue a) = a" "colorKey (slotValue b) = b" "colorKey (slotValue c) = c"
    "colorKey (slotValue d) = d" "colorKey (slotValue e) = e"
    using assms by (simp_all add: validPattern_def colorKey_slotValue)
  have e4: "?n4 mod 3 = slotValue e"
    using slotValue_range [of e] by simp
  show ?thesis
    unfolding n decodePattern_def Let_def
    by (simp only: digit_peel slotValue_range e4 k)
qed

lemma encode_decode:
  assumes "0 \<le> n" "n \<le> 242"
  shows "validPattern (decodePattern n) \<and> encodePattern (decodePattern n) = Num n"
proof -
  define q1 where "q1 = n div 3"
  define q2 where "q2 = q1 div 3"
  define q3 where "q3 = q2 div 3"
  define q4 where "q4 = q3 div 3"
  have d: "decodePattern n = [colorKey (n mod 3), colorKey (q1 mod 3), colorKey (q2 mod 3),
          colorKey (q3 mod 3), colorKey (q4 mod 3)]"
    by (simp add: decodePattern_def Let_def q1_def q2_def q3_def q4_def)
  have v: "validPattern (decodePattern n)"
    unfolding d validPattern_def using colorKey_valid by simp
  have s: "slotValue (colorKey (x mod 3)) = x mod 3" for x :: int
    by (rule slotValue_colorKey) simp_all
  have q4: "q4 mod 3 = q4"
    using assms unfolding q4_def q3_def q2_def q1_def by simp
  have "n = n mod 3 + 3 * q1" "q1 = q1 mod 3 + 3 * q2" "q2 = q2 mod 3 + 3 * q3" "q3 = q3 mod 3 + 3 * q4"
    unfolding q4_def q3_def q2_def q1_def by simp_all
  then have "n mod 3 + 3 * (q1 mod 3) + 9 * (q2 mod 3) + 27 * (q3 mod 3) + 81 * (q4 mod 3) = n"
    using q4 by linarith
  then show ?thesis
    using v encodePattern_valid [of "colorKey (n mod 3)" "colorKey (q1 mod 3)" "colorKey (q2 mod 3)"
          "colorKey (q3 mod 3)" "colorKey (q4 mod 3)"]
    unfolding d by (simp add: s)
qed

lemma slotValue_COLOR_MAP:
  "k \<in> {''_'', ''Y'', ''G''} \<Longrightarrow> the (COLOR_MAP k) = slotValue k"
  by (auto simp: COLOR_MAP_def slotValue_def)

lemma validPattern_five:
  assumes "validPattern fb"
  obtains a b c d e where "fb = [a, b, c, d, e]"
  using assms five_list unfolding validPattern_def by blast

lemma weighted_sum_five:
  "validPattern [a, b, c, d, e] \<Longrightarrow>
   (\<Sum>i<5. the (COLOR_MAP ([a, b, c, d, e] ! i)) * weights ! i) =
     slotValue a + 3 * slotValue b + 9 * slotValue c + 27 * slotValue d + 81 * slotValue e"
  by (simp add: validPattern_def weights_def eval_nat_numeral lessThan_Suc slotValue_COLOR_MAP)

lemma encodePattern_inj: "inj_on encodePattern {fb. validPattern fb}"
proof (rule inj_onI)
  fix x y
  assume "x \<in> {fb. validPattern fb}" "y \<in> {fb. validPattern fb}" and eq: "encodePattern x = encodePattern y"
  then have vx: "validPattern x" and vy: "validPattern y" by simp_all
  obtain a b c d e where x: "x = [a, b, c, d, e]" using vx by (rule validPattern_five)
  obtain a' b' c' d' e' where y: "y = [a', b', c', d', e']" using vy by (rule validPattern_five)
  have "slotValue a + 3 * slotValue b + 9 * slotValue c + 27 * slotValue d + 81 * slotValue e
      = slotValue a' + 3 * slotValue b' + 9 * slotValue c' + 27 * slotValue d' + 81 * slotValue e'"
    using eq vx vy unfolding x y by (simp add: encodePattern_valid)
  then have "decodePattern (slotValue a + 3 * slotValue b + 9 * slotValue c + 27 * slotValue d + 81 * slotValue e)
      = decodePattern (slotValue a' + 3 * slotValue b' + 9 * slotValue c' + 27 * slotValue d' + 81 * slotValue e')"
    by simp
  then show "x = y"
    using vx vy unfolding x y by (simp only: decode_encode)
qed

lemma encodePattern_range:
  assumes "validPattern fb"
  shows "encodePattern fb \<in> Num ` {0..242}"
proof -
  obtain a b c d e where fb: "fb = [a, b, c, d, e]" using assms by (rule validPattern_five)
  have "0 \<le> slotValue a + 3 * slotValue b + 9 * slotValue c + 27 * slotValue d + 81 * slotValue e"
       "slotValue a + 3 * slotValue b + 9 * slotValue c + 27 * slotValue d + 81 * slotValue e \<le> 242"
    using slotValue_range [of a] slotValue_range [of b] slotValue_range [of c]
      slotValue_range [of d] slotValue_range [of e] by linarith+
  then show ?thesis
    using assms unfolding fb by (simp add: encodePattern_valid)
qed

text \<open>
  Claim C8. On the patterns of five slots, each Absent, Present or Correct,
  \<open>encodePattern\<close> is the sum of the slot values times the weights 1, 3, 9, 27, 81;
  it is a bijection from these patterns onto the integers from 0 to 242, so every
  code lies in that range and every integer of the range is the code of one pattern.
\<close>

theorem encodePattern_bijection:
  "bij_betw encodePattern {fb. validPattern fb} (Num ` {0..242}) \<and>
   (\<forall>fb. validPattern fb \<longrightarrow>
      encodePattern fb = Num (\<Sum>i<5. the (COLOR_MAP (fb ! i)) * weights ! i))"
proof
  show "bij_betw encodePattern {fb. validPattern fb} (Num ` {0..242})"
    unfolding bij_betw_def
  proof
    show "inj_on encodePattern {fb. validPattern fb}" by (rule encodePattern_inj)
    show "encodePattern ` {fb. validPattern fb} = Num ` {0..242}"
    proof
      show "encodePattern ` {fb. validPattern fb} \<subseteq> Num ` {0..242}"
        using encodePattern_range by blast
      show "Num ` {0..242} \<subseteq> encodePattern ` {fb. validPattern fb}"
      proof
        fix y assume "y \<in> Num ` {0..242}"
        then obtain n where n: "y = Num n" "0 \<le> n" "n \<le> 242" by auto
        have "validPattern (decodePattern n) \<and> encodePattern (decodePattern n) = Num n"
          using n(2,3) by (rule encode_decode)
        then show "y \<in> encodePattern ` {fb. validPattern fb}"
          unfolding n(1) by (metis (mono_tags) image_eqI mem_Collect_eq)
      qed
    qed
  qed
  show "\<forall>fb. validPattern fb \<longrightarrow>
      encodePattern fb = Num (\<Sum>i<5. the (COLOR_MAP (fb ! i)) * weights ! i)"
  proof (intro allI impI)
    fix fb assume v: "validPattern fb"
    obtain a b c d e where fb: "fb = [a, b, c, d, e]" using v by (rule validPattern_five)
    show "encodePattern fb = Num (\<Sum>i<5. the (COLOR_MAP (fb ! i)) * weights ! i)"
      using v unfolding fb by (simp only: encodePattern_valid weighted_sum_five)
  qed
qed

theorem encodePattern_bijection_witness:
  "validPattern [''G'', ''_'', ''Y'', ''_'', ''G''] \<and>
   encodePattern [''G'', ''_'', ''Y'', ''_'', ''G''] = Num 173"
proof -
  have v: "validPattern [''G'', ''_'', ''Y'', ''_'', ''G'']"
    by (simp add: validPattern_def)
  have "encodePattern [''G'', ''_'', ''Y'', ''_'', ''G''] =
          Num (\<Sum>i<5. the (COLOR_MAP ([''G'', ''_'', ''Y'', ''_'', ''G''] ! i)) * weights ! i)"
    using encodePattern_bijection v by blast
  then show ?thesis
    using v by (simp add: weighted_sum_five slotValue_def)
qed

section \<open>The word codec\<close>

lemma baseCharCode_65: "baseCharCode = Num 65"
  by (simp add: baseCharCode_def charCodeAt_def array_get_def)

lemma stringToIntVec_five:
  "stringToIntVec [a, b, c, d, e] =
     [Num (of_char a - 64), Num (of_char b - 64), Num (of_char c - 64),
      Num (of_char d - 64), Num (of_char e - 64)]"
  by (simp add: stringToIntVec_def upt_0_5 baseCharCode_65 charCodeAt_def array_get_def)

lemma intVecToString_five:
  "intVecToString L [a, b, c, d, e] =
     letterAt L a @ letterAt L b @ letterAt L c @ letterAt L d @ letterAt L e"
  by (simp add: intVecToString_def)

lemma toInt32_small: "- 1000 \<le> n \<Longrightarrow> n \<le> 1000 \<Longrightarrow> toInt32 (Num n) = n"
  by (simp add: toInt32_def)

lemma letterAt_table:
  assumes "lettersTable L" "1 \<le> v" "v \<le> 26"
  shows "letterAt L v = [char_of (64 + v)]"
  using assms by (simp add: lettersTable_def letterAt_def)

lemma letter_of_code:
  fixes c :: char
  assumes "lettersTable L" "65 \<le> (of_char c :: int)" "(of_char c :: int) \<le> 90"
  shows "letterAt L (of_char c - 64) = [c]"
proof -
  have "letterAt L (of_char c - 64) = [char_of (64 + (of_char c - 64 :: int))]"
    using assms by (intro letterAt_table) simp_all
  also have "64 + (of_char c - 64 :: int) = of_char c" by simp
  finally show ?thesis by simp
qed

lemma code_of_letter:
  fixes v :: int
  assumes "1 \<le> v" "v \<le> 26"
  shows "(64 + v) mod 256 = 64 + v"
  using assms by simp

lemma string_to_vec_to_string:
  assumes "lettersTable L" "upperWord w"
  shows "letterVec (map toInt32 (stringToIntVec w)) \<and>
         stringToIntVec w = map Num (map toInt32 (stringToIntVec w)) \<and>
         intVecToString L (map toInt32 (stringToIntVec w)) = w"
proof -
  obtain a b c d e where w: "w = [a, b, c, d, e]"
    using assms(2) five_list unfolding upperWord_def by blast
  have r: "65 \<le> (of_char x :: int) \<and> (of_char x :: int) \<le> 90" if "x \<in> {a, b, c, d, e}" for x
    using assms(2) that unfolding upperWord_def w by auto
  have t: "toInt32 (Num (of_char x - 64)) = of_char x - 64" if "x \<in> {a, b, c, d, e}" for x
    using r [OF that] by (intro toInt32_small) simp_all
  have l: "letterAt L (of_char x - 64) = [x]" if "x \<in> {a, b, c, d, e}" for x
    using r [OF that] assms(1) by (intro letter_of_code) simp_all
  show ?thesis
    unfolding w stringToIntVec_five
    using r by (simp add: t l intVecToString_five letterVec_def)
qed

lemma vec_to_string_to_vec:
  assumes "lettersTable L" "letterVec v"
  shows "upperWord (intVecToString L v) \<and> stringToIntVec (intVecToString L v) = map Num v"
proof -
  obtain a b c d e where v: "v = [a, b, c, d, e]"
    using assms(2) five_list unfolding letterVec_def by blast
  have r: "1 \<le> x \<and> x \<le> 26" if "x \<in> {a, b, c, d, e}" for x
    using assms(2) that unfolding letterVec_def v by auto
  have l: "letterAt L x = [char_of (64 + x)]" if "x \<in> {a, b, c, d, e}" for x
    using r [OF that] assms(1) by (intro letterAt_table) simp_all
  have c: "(64 + x) mod 256 = 64 + x" if "x \<in> {a, b, c, d, e}" for x
    using r [OF that] by (intro code_of_letter) simp_all
  show ?thesis
    unfolding v using r by (simp add: intVecToString_five l stringToIntVec_five c upperWord_def)
qed

lemma exampleLetters_table: "lettersTable exampleLetters"
  unfolding lettersTable_def exampleLetters_def by code_simp

text \<open>
  Claim C9. With a letter table whose entries 1 to 26 are the capital letters:
  a word of five capital letters converts to a vector of five numbers from 1 to 26
  (the very numbers that \<open>HEAP32.set\<close> stores), and that vector converts back to
  the word; a vector of five numbers from 1 to 26 converts to a word of five capital
  letters, and that word converts back to the vector.
\<close>

theorem wordCodec_roundtrip:
  assumes "lettersTable L"
  shows "(upperWord w \<longrightarrow>
            letterVec (map toInt32 (stringToIntVec w)) \<and>
            stringToIntVec w = map Num (map toInt32 (stringToIntVec w)) \<and>
            intVecToString L (map toInt32 (stringToIntVec w)) = w) \<and>
         (letterVec v \<longrightarrow>
            upperWord (intVecToString L v) \<and>
            stringToIntVec (intVecToString L v) = map Num v)"
  using assms string_to_vec_to_string vec_to_string_to_vec by blast

theorem wordCodec_roundtrip_witness:
  "lettersTable exampleLetters \<and> upperWord ''SOARE'' \<and> letterVec [19, 15, 1, 18, 5] \<and>
   stringToIntVec ''SOARE'' = map Num [19, 15, 1, 18, 5] \<and>
   intVecToString exampleLetters [19, 15, 1, 18, 5] = ''SOARE''"
proof -
  have u: "upperWord ''SOARE''"
    by (simp add: upperWord_def)
  have l: "letterVec [19, 15, 1, 18, 5]"
    by (simp add: letterVec_def)
  have s: "map toInt32 (stringToIntVec ''SOARE'') = [19, 15, 1, 18, 5]"
    by (simp add: stringToIntVec_five toInt32_def)
  show ?thesis
    using wordCodec_roundtrip [OF exampleLetters_table, of "''SOARE''" "[19, 15, 1, 18, 5]"] u l
    by (simp add: exampleLetters_table s)
qed

section \<open>The selection loop and the tie-breaks\<close>

lemma PosInf_greatest: "x \<le> PosInf"
  by (cases x) simp_all

lemma NegInf_least: "NegInf \<le> x"
  by simp

lemma findBest_Suc:
  "findBest um fs (Suc n) = bestStep um fs n (findBest um fs n)"
  by (simp add: findBest_def)

lemma findBest_0: "findBest um fs 0 = (Flt (if um then PosInf else NegInf), [])"
  by (simp add: findBest_def)

text \<open>Whatever the scores are, the indices found are increasing and below the bound.\<close>

lemma findBest_sorted:
  "sorted_wrt (<) (snd (findBest um fs n)) \<and> (\<forall>i\<in>set (snd (findBest um fs n)). i < n)"
proof (induction n)
  case 0
  then show ?case by (simp add: findBest_0)
next
  case (Suc n)
  then show ?case
    by (auto simp: findBest_Suc bestStep_def Let_def sorted_wrt_append less_Suc_eq)
qed

lemma findBest_min_inv:
  "0 < n \<Longrightarrow> n \<le> length sc \<Longrightarrow>
     \<exists>m. findBest True (map Flt sc) n = (Flt m, filter (\<lambda>i. sc ! i = m) [0..<n])
        \<and> (\<exists>i<n. sc ! i = m) \<and> (\<forall>j<n. m \<le> sc ! j)"
proof (induction n)
  case 0
  then show ?case by simp
next
  case (Suc n)
  have n: "n < length sc" using Suc.prems by simp
  show ?case
  proof (cases "n = 0")
    case True
    have "sc ! 0 < PosInf \<or> sc ! 0 = PosInf"
      using PosInf_greatest [of "sc ! 0"] by (auto simp: le_less)
    then show ?thesis
      using True n by (auto simp: findBest_Suc findBest_0 bestStep_def Let_def)
  next
    case False
    then obtain m where fb: "findBest True (map Flt sc) n = (Flt m, filter (\<lambda>i. sc ! i = m) [0..<n])"
      and at: "\<exists>i<n. sc ! i = m" and le: "\<forall>j<n. m \<le> sc ! j"
      using Suc.IH n by auto
    consider (lt) "sc ! n < m" | (eq) "sc ! n = m" | (gt) "m < sc ! n"
      using less_linear by blast
    then show ?thesis
    proof cases
      case lt
      have "filter (\<lambda>i. sc ! i = sc ! n) [0..<n] = []"
        using le lt by (auto simp: filter_empty_conv)
      moreover have "\<forall>j<Suc n. sc ! n \<le> sc ! j"
        using le lt by (auto simp: less_Suc_eq intro: less_imp_le order_trans)
      ultimately show ?thesis
        using lt n by (auto simp: findBest_Suc fb bestStep_def Let_def)
    next
      case eq
      have "\<forall>j<Suc n. m \<le> sc ! j"
        using le eq by (auto simp: less_Suc_eq)
      then show ?thesis
        using eq n by (auto simp: findBest_Suc fb bestStep_def Let_def)
    next
      case gt
      have "\<forall>j<Suc n. m \<le> sc ! j"
        using le gt by (auto simp: less_Suc_eq)
      moreover have "\<exists>i<Suc n. sc ! i = m"
        using at less_Suc_eq by blast
      ultimately show ?thesis
        using gt n by (auto simp: findBest_Suc fb bestStep_def Let_def)
    qed
  qed
qed

lemma findBest_max_inv:
  "0 < n \<Longrightarrow> n \<le> length sc \<Longrightarrow>
     \<exists>m. findBest False (map Flt sc) n = (Flt m, filter (\<lambda>i. sc ! i = m) [0..<n])
        \<and> (\<exists>i<n. sc ! i = m) \<and> (\<forall>j<n. sc ! j \<le> m)"
proof (induction n)
  case 0
  then show ?case by simp
next
  case (Suc n)
  have n: "n < length sc" using Suc.prems by simp
  show ?case
  proof (cases "n = 0")
    case True
    have "NegInf < sc ! 0 \<or> sc ! 0 = NegInf"
      using NegInf_least [of "sc ! 0"] by (auto simp: le_less)
    then show ?thesis
      using True n by (auto simp: findBest_Suc findBest_0 bestStep_def Let_def)
  next
    case False
    then obtain m where fb: "findBest False (map Flt sc) n = (Flt m, filter (\<lambda>i. sc ! i = m) [0..<n])"
      and at: "\<exists>i<n. sc ! i = m" and le: "\<forall>j<n. sc ! j \<le> m"
      using Suc.IH n by auto
    consider (gt) "m < sc ! n" | (eq) "sc ! n = m" | (lt) "sc ! n < m"
      using less_linear by blast
    then show ?thesis
    proof cases
      case gt
      have "filter (\<lambda>i. sc ! i = sc ! n) [0..<n] = []"
        using le gt by (auto simp: filter_empty_conv)
      moreover have "\<forall>j<Suc n. sc ! j \<le> sc ! n"
        using le gt by (auto simp: less_Suc_eq intro: less_imp_le order_trans)
      ultimately show ?thesis
        using gt n by (auto simp: findBest_Suc fb bestStep_def Let_def)
    next
      case eq
      have "\<forall>j<Suc n. sc ! j \<le> m"
        using le eq by (auto simp: less_Suc_eq)
      then show ?thesis
        using eq n by (auto simp: findBest_Suc fb bestStep_def Let_def)
    next
      case lt
      have "\<forall>j<Suc n. sc ! j \<le> m"
        using le lt by (auto simp: less_Suc_eq)
      moreover have "\<exists>i<Suc n. sc ! i = m"
        using at less_Suc_eq by blast
      ultimately show ?thesis
        using lt n by (auto simp: findBest_Suc fb bestStep_def Let_def)
    qed
  qed
qed

lemma findBest_extremal:
  assumes "n \<le> length sc"
  shows "snd (findBest least (map Flt sc) n) = extremalIndices least sc n"
proof (cases "n = 0")
  case True
  then show ?thesis by (simp add: findBest_0 extremalIndices_def)
next
  case False
  show ?thesis
  proof (cases least)
    case True
    obtain m where fb: "findBest True (map Flt sc) n = (Flt m, filter (\<lambda>i. sc ! i = m) [0..<n])"
      and at: "\<exists>i<n. sc ! i = m" and le: "\<forall>j<n. m \<le> sc ! j"
      using findBest_min_inv [of n sc] False assms by auto
    have "filter (\<lambda>i. sc ! i = m) [0..<n] = filter (\<lambda>i. \<forall>j\<in>{0..<n}. sc ! i \<le> sc ! j) [0..<n]"
    proof (rule filter_cong [OF refl])
      fix i assume "i \<in> set [0..<n]"
      then have "i < n" by simp
      show "(sc ! i = m) = (\<forall>j\<in>{0..<n}. sc ! i \<le> sc ! j)"
        using at le \<open>i < n\<close> by (metis atLeastLessThan_iff le0 order_antisym)
    qed
    then show ?thesis using True by (simp add: fb extremalIndices_def)
  next
    case least: False
    obtain m where fb: "findBest False (map Flt sc) n = (Flt m, filter (\<lambda>i. sc ! i = m) [0..<n])"
      and at: "\<exists>i<n. sc ! i = m" and le: "\<forall>j<n. sc ! j \<le> m"
      using findBest_max_inv [of n sc] False assms by auto
    have "filter (\<lambda>i. sc ! i = m) [0..<n] = filter (\<lambda>i. \<forall>j\<in>{0..<n}. sc ! j \<le> sc ! i) [0..<n]"
    proof (rule filter_cong [OF refl])
      fix i assume "i \<in> set [0..<n]"
      then have "i < n" by simp
      show "(sc ! i = m) = (\<forall>j\<in>{0..<n}. sc ! j \<le> sc ! i)"
        using at le \<open>i < n\<close> by (metis atLeastLessThan_iff le0 order_antisym)
    qed
    then show ?thesis using least by (simp add: fb extremalIndices_def)
  qed
qed

lemma extremalIndices_nonempty:
  assumes "0 < n" "n \<le> length sc"
  shows "extremalIndices least sc n \<noteq> []"
proof (cases least)
  case True
  obtain m where "findBest True (map Flt sc) n = (Flt m, filter (\<lambda>i. sc ! i = m) [0..<n])"
    and "\<exists>i<n. sc ! i = m"
    using findBest_min_inv [of n sc] assms by auto
  then have "snd (findBest True (map Flt sc) n) \<noteq> []" by (auto simp: filter_empty_conv)
  then show ?thesis using True findBest_extremal [OF assms(2)] by simp
next
  case False
  obtain m where "findBest False (map Flt sc) n = (Flt m, filter (\<lambda>i. sc ! i = m) [0..<n])"
    and "\<exists>i<n. sc ! i = m"
    using findBest_max_inv [of n sc] assms by auto
  then have "snd (findBest False (map Flt sc) n) \<noteq> []" by (auto simp: filter_empty_conv)
  then show ?thesis using False findBest_extremal [OF assms(2)] by simp
qed

lemma Math_max_fold:
  "fold (\<lambda>x m. js_max m x) (map Flt xs) (Flt a) = Flt (Max (insert a (set xs)))"
proof (induction xs arbitrary: a)
  case Nil
  then show ?case by simp
next
  case (Cons x xs)
  have "Max (insert (max a x) (set xs)) = Max (insert a (insert x (set xs)))"
    by (metis List.finite_set Max_insert Max_singleton finite_insert insert_not_empty max.assoc)
  then show ?case
    using Cons.IH [of "max a x"] by simp
qed

lemma Math_max_numbers: "xs \<noteq> [] \<Longrightarrow> Math_max (map Flt xs) = Flt (Max (set xs))"
proof -
  assume "xs \<noteq> []"
  then have "Max (insert NegInf (set xs)) = Max (set xs)"
    by (simp add: max_def)
  then show ?thesis by (simp add: Math_max_def Math_max_fold)
qed

lemma map_fst_filter: "map fst (filter (\<lambda>p. Q (fst p)) zs) = filter Q (map fst zs)"
  by (induction zs) auto

lemma zip_index_filter:
  "map fst (filter (\<lambda>(x, k). P (map g xs ! k)) (zip xs [0..<length xs])) = filter (\<lambda>x. P (g x)) xs"
proof -
  let ?zs = "zip xs [0..<length xs]"
  have "filter (\<lambda>(x, k). P (map g xs ! k)) ?zs = filter (\<lambda>p. P (g (fst p))) ?zs"
    by (rule filter_cong [OF refl]) (auto simp: in_set_zip)
  moreover have "map fst (filter (\<lambda>p. P (g (fst p))) ?zs) = filter (\<lambda>x. P (g x)) (map fst ?zs)"
    by (rule map_fst_filter)
  moreover have "map fst ?zs = xs"
    by simp
  ultimately show ?thesis by simp
qed

lemma entropyTieBreak_filter:
  "entropyTieBreak es b = filter (\<lambda>i. js_eq (es ! i) (Math_max (map (\<lambda>i. es ! i) b))) b"
  unfolding entropyTieBreak_def Let_def
  using zip_index_filter [of "\<lambda>s. js_eq s (Math_max (map (\<lambda>i. es ! i) b))" "\<lambda>i. es ! i" b]
  by simp

lemma entropyTieBreak_numbers:
  assumes "b \<noteq> []" "\<forall>i\<in>set b. i < length en"
  shows "entropyTieBreak (map Flt en) b = greatestAmong en b"
proof -
  have m: "map (\<lambda>i. map Flt en ! i) b = map Flt (map ((!) en) b)"
    using assms(2) by simp
  have "map ((!) en) b \<noteq> []"
    using assms(1) by simp
  then have "Math_max (map Flt (map ((!) en) b)) = Flt (Max (set (map ((!) en) b)))"
    by (rule Math_max_numbers)
  then have mm: "Math_max (map (\<lambda>i. map Flt en ! i) b) = Flt (Max ((\<lambda>i. en ! i) ` set b))"
    by (simp only: m set_map)
  have "entropyTieBreak (map Flt en) b = filter (\<lambda>i. js_eq (map Flt en ! i) (Flt (Max ((\<lambda>i. en ! i) ` set b)))) b"
    unfolding entropyTieBreak_filter mm ..
  also have "\<dots> = filter (\<lambda>i. \<forall>j\<in>set b. en ! j \<le> en ! i) b"
  proof (rule filter_cong [OF refl])
    fix i assume i: "i \<in> set b"
    have le: "en ! i \<le> Max ((\<lambda>i. en ! i) ` set b)" using i by simp
    have iff: "Max ((\<lambda>i. en ! i) ` set b) \<le> en ! i \<longleftrightarrow> (\<forall>j\<in>set b. en ! j \<le> en ! i)"
      using assms(1) by (subst Max_le_iff) auto
    have "js_eq (map Flt en ! i) (Flt (Max ((\<lambda>i. en ! i) ` set b)))
            = (en ! i = Max ((\<lambda>i. en ! i) ` set b))"
      using assms(2) i by simp
    also have "\<dots> = (Max ((\<lambda>i. en ! i) ` set b) \<le> en ! i)"
      using le by (metis order_antisym order_refl)
    also note iff
    finally show "js_eq (map Flt en ! i) (Flt (Max ((\<lambda>i. en ! i) ` set b)))
                   = (\<forall>j\<in>set b. en ! j \<le> en ! i)" .
  qed
  finally show ?thesis by (simp add: greatestAmong_def)
qed

lemma greatestAmong_nonempty: "b \<noteq> [] \<Longrightarrow> greatestAmong en b \<noteq> []"
proof -
  assume b: "b \<noteq> []"
  then obtain i where i: "i \<in> set b" "en ! i = Max ((\<lambda>i. en ! i) ` set b)"
    by (metis (mono_tags, lifting) List.finite_set Max_in finite_imageI image_iff image_is_empty set_empty)
  then have "\<forall>j\<in>set b. en ! j \<le> en ! i" by simp
  then show ?thesis
    using i(1) by (auto simp: greatestAmong_def filter_empty_conv)
qed

lemma float64_view_length: "float64_view h ptr n = Inr v \<Longrightarrow> length v = n"
  by (auto simp: float64_view_def split: if_splits)

lemma float64_view_numbers_length: "float64_view h ptr n = Inr (map Flt sc) \<Longrightarrow> length sc = n"
  using float64_view_length by fastforce

lemma int32_view_length: "int32_view h off len = Inr v \<Longrightarrow> length v = nat len"
  by (auto simp: int32_view_def split: if_splits)

lemma extremalIndices_bound: "i \<in> set (extremalIndices least sc n) \<Longrightarrow> i < n"
  by (simp add: extremalIndices_def)

lemma extremalIndices_sorted: "sorted_wrt (<) (extremalIndices least sc n)"
  unfolding extremalIndices_def by (rule sorted_wrt_filter) simp

text \<open>The primary pass on scores that are numbers.\<close>

lemma primaryPass_numbers:
  assumes "float64_view (scoreCall D calc h p nCand (if nCand < 31 then 1 else 0)) (scores p)
             (N_TOTAL_GUESSES D) = Inr (map Flt sc)"
  shows "primaryPass D calc h p nCand =
           Inr (scoreCall D calc h p nCand (if nCand < 31 then 1 else 0),
                extremalIndices (nCand < 31) sc (N_TOTAL_GUESSES D))"
proof -
  have "N_TOTAL_GUESSES D \<le> length sc"
    using float64_view_numbers_length [OF assms] by simp
  then show ?thesis
    using assms by (simp add: primaryPass_def Let_def isMinimax_def useMinimax_def findBest_extremal)
qed

lemma primaryPass_result:
  assumes "primaryPass D calc h p nCand = Inr (hP, best)"
  shows "hP = scoreCall D calc h p nCand (if nCand < 31 then 1 else 0) \<and>
         sorted_wrt (<) best \<and> (\<forall>i\<in>set best. i < N_TOTAL_GUESSES D) \<and>
         (\<exists>fs. float64_view hP (scores p) (N_TOTAL_GUESSES D) = Inr fs \<and>
               best = snd (findBest (nCand < 31) fs (N_TOTAL_GUESSES D)))"
  using assms findBest_sorted
  by (auto simp: primaryPass_def Let_def isMinimax_def useMinimax_def split: sum.splits)

text \<open>Tie-break A: when it runs and what it keeps.\<close>

lemma entropyPass_applied:
  assumes "nCand < 31" "1 < length tied" "\<forall>i\<in>set tied. i < N_TOTAL_GUESSES D"
    and "float64_view (scoreCall D calc hP p nCand 0) (scores p) (N_TOTAL_GUESSES D) = Inr (map Flt en)"
  shows "entropyPass D calc p nCand (hP, tied) =
           Inr (scoreCall D calc hP p nCand 0, greatestAmong en tied)"
proof -
  have "length en = N_TOTAL_GUESSES D"
    using assms(4) by (rule float64_view_numbers_length)
  moreover have "tied \<noteq> []" using assms(2) by auto
  ultimately have "entropyTieBreak (map Flt en) tied = greatestAmong en tied"
    using assms(3) by (intro entropyTieBreak_numbers) simp_all
  then show ?thesis
    using assms(1,2,4) by (simp add: entropyPass_def Let_def useMinimax_def)
qed

lemma entropyPass_skipped:
  assumes "\<not> (nCand < 31 \<and> 1 < length tied)"
  shows "entropyPass D calc p nCand (hP, tied) = Inr (hP, tied)"
  using assms by (auto simp: entropyPass_def Let_def useMinimax_def)

lemma entropyPass_result:
  assumes "entropyPass D calc p nCand (hP, best) = Inr (hE, tied)"
  shows "\<exists>P. tied = filter P best"
proof (cases "nCand < 31 \<and> 1 < length best")
  case True
  then obtain es where "tied = entropyTieBreak es best"
    using assms by (auto simp: entropyPass_def Let_def useMinimax_def split: sum.splits)
  then show ?thesis using entropyTieBreak_filter by blast
next
  case False
  then have "tied = filter (\<lambda>_. True) best"
    using assms by (simp add: entropyPass_skipped)
  then show ?thesis by blast
qed

text \<open>\<open>calculateBestGuess\<close> with a number of candidates other than one.\<close>

lemma calculateBestGuess_scored:
  assumes "Module a = Some h" "length (currentCandidates (STATE a)) = nCand" "nCand \<noteq> 1"
  shows "calculateBestGuess D calc a =
           (case primaryPass D calc h (WASM_PTR a) nCand of
              Inl e \<Rightarrow> Inl e
            | Inr hb \<Rightarrow> tieBreaksAndSelect D calc a nCand hb)"
  using assms by (simp add: calculateBestGuess_def Let_def)

lemma tieBreaksAndSelect_entropy_regime:
  assumes "31 \<le> nCand"
  shows "tieBreaksAndSelect D calc a nCand hb = answersAndSelect D a hb"
  using assms entropyPass_skipped [of nCand "snd hb" D calc "WASM_PTR a" "fst hb"]
  by (simp add: tieBreaksAndSelect_def)

lemma ex_view_M:
  "float64_view exampleHeapM 192 6 = Inr (map Flt [Fin 3, Fin 1, Fin 1, Fin 1, Fin 2, Fin 2])"
  by code_simp

lemma ex_view_E:
  "float64_view exampleHeapE 192 6 = Inr (map Flt [Fin 1, Fin 4, Fin 2, Fin 4, Fin 5, Fin 1])"
  by code_simp

lemma big_view_E:
  "float64_view bigHeapE 992 31 = Inr (map Flt ((replicate 31 (Fin 1))[7 := Fin 3]))"
  by code_simp

lemma ex_cands:
  "Module exampleApp = Some exampleHeap" "length (currentCandidates (STATE exampleApp)) = 4"
  "WASM_PTR exampleApp = examplePtr" "N_TOTAL_GUESSES exampleData = 6" "scores examplePtr = 192"
  "isPossibleAnswer examplePtr = 120" "guessesFlat examplePtr = 0"
  "currentCandidatesA examplePtr = 144"
  by (simp_all add: exampleApp_def exampleState_def exampleData_def examplePtr_def)

lemma ex_calls:
  "exampleScores exampleHeap 0 6 144 4 192 1 = exampleHeapM"
  "exampleScores exampleHeapM 0 6 144 4 192 0 = exampleHeapE"
  by (simp_all add: exampleHeapM_def exampleHeapE_def)

lemma ex_least: "extremalIndices True [Fin 3, Fin 1, Fin 1, Fin 1, Fin 2, Fin 2] 6 = [1, 2, 3]"
  by code_simp

lemma ex_greatest: "greatestAmong [Fin 1, Fin 4, Fin 2, Fin 4, Fin 5, Fin 1] [1, 2, 3] = [1, 3]"
  by code_simp

lemma ex_selected:
  "tieBreaksAndSelect exampleData exampleScores exampleApp 4 (exampleHeapM, [1, 2, 3]) =
     Inr (exampleApp\<lparr>Module := Some exampleHeapE,
            STATE := exampleState\<lparr>currentGuessWord := ''BBBBB''\<rparr>\<rparr>)"
  "answersAndSelect exampleData exampleApp (exampleHeapE, [1, 3]) =
     Inr (exampleApp\<lparr>Module := Some exampleHeapE,
            STATE := exampleState\<lparr>currentGuessWord := ''BBBBB''\<rparr>\<rparr>)"
  by code_simp+

lemma big_cands:
  "Module bigApp = Some bigHeap" "length (currentCandidates (STATE bigApp)) = 31"
  "WASM_PTR bigApp = bigPtr" "N_TOTAL_GUESSES bigData = 31" "scores bigPtr = 992"
  "guessesFlat bigPtr = 0" "currentCandidatesA bigPtr = 744"
  by (simp_all add: bigApp_def bigData_def bigPtr_def bigCandidates_def)

lemma big_call: "bigScores bigHeap 0 31 744 31 992 0 = bigHeapE"
  by (simp add: bigHeapE_def)

lemma big_view_M:
  "float64_view (bigScores bigHeap 0 31 744 31 992 1) 992 31 =
     Inr (map Flt ((replicate 31 (Fin 2))[3 := Fin 1, 9 := Fin 5]))"
  by code_simp

lemma big_extremes:
  "extremalIndices False ((replicate 31 (Fin 1))[7 := Fin 3]) 31 = [7]"
  "extremalIndices True ((replicate 31 (Fin 2))[3 := Fin 1, 9 := Fin 5]) 31 = [3]"
  "extremalIndices False ((replicate 31 (Fin 2))[3 := Fin 1, 9 := Fin 5]) 31 = [9]"
  by code_simp+

lemma big_selected:
  "answersAndSelect bigData bigApp (bigHeapE, [7]) =
     Inr (bigApp\<lparr>Module := Some bigHeapE,
            STATE := (STATE bigApp)\<lparr>currentGuessWord := ''HHHHH''\<rparr>\<rparr>)"
  by code_simp

text \<open>
  Claim C5. With two candidates or more, \<open>calculateBestGuess\<close> calls the score
  export once for its primary pass, on the guess table, the candidate buffer A, the
  number of candidates and the score buffer. With fewer than 31 candidates it passes
  \<open>is_minimax = 1\<close> and, the scores being numbers, goes on to the tie-breaks with the
  heap the call left and the guess indices of least score. With 31 candidates or
  more it passes \<open>is_minimax = 0\<close> (entropy) and goes on with the guess indices of
  greatest score; the export is then not called again, so the minimax scores are
  never computed in this regime.
\<close>

theorem metric_choice:
  assumes "Module a = Some h" "length (currentCandidates (STATE a)) = nCand" "2 \<le> nCand"
    and "WASM_PTR a = p" "N_TOTAL_GUESSES D = n"
  shows "(nCand < 31 \<longrightarrow>
            float64_view
              (calc h (guessesFlat p) n (currentCandidatesA p) nCand (scores p) 1)
              (scores p) n = Inr (map Flt sc) \<longrightarrow>
            calculateBestGuess D calc a =
              tieBreaksAndSelect D calc a nCand
                (calc h (guessesFlat p) n (currentCandidatesA p) nCand (scores p) 1,
                 extremalIndices True sc n)) \<and>
         (31 \<le> nCand \<longrightarrow>
            float64_view
              (calc h (guessesFlat p) n (currentCandidatesA p) nCand (scores p) 0)
              (scores p) n = Inr (map Flt sc) \<longrightarrow>
            calculateBestGuess D calc a =
              answersAndSelect D a
                (calc h (guessesFlat p) n (currentCandidatesA p) nCand (scores p) 0,
                 extremalIndices False sc n))"
proof (intro conjI impI)
  have one: "nCand \<noteq> 1" using assms(3) by simp
  have call: "\<And>flag. scoreCall D calc h p nCand flag =
      calc h (guessesFlat p) n (currentCandidatesA p) nCand (scores p) flag"
    by (simp add: scoreCall_def assms(5))
  {
    assume lt: "nCand < 31"
      and v: "float64_view
              (calc h (guessesFlat p) n (currentCandidatesA p) nCand (scores p) 1)
              (scores p) n = Inr (map Flt sc)"
    have "primaryPass D calc h (WASM_PTR a) nCand =
            Inr (calc h (guessesFlat p) n (currentCandidatesA p) nCand (scores p) 1,
                 extremalIndices True sc n)"
      using primaryPass_numbers [of D calc h "WASM_PTR a" nCand sc] lt v
      by (simp add: call assms(4,5))
    then show "calculateBestGuess D calc a =
        tieBreaksAndSelect D calc a nCand
          (calc h (guessesFlat p) n (currentCandidatesA p) nCand (scores p) 1,
           extremalIndices True sc n)"
      by (simp add: calculateBestGuess_scored [OF assms(1,2) one])
  }
  {
    assume ge: "31 \<le> nCand"
      and v: "float64_view
              (calc h (guessesFlat p) n (currentCandidatesA p) nCand (scores p) 0)
              (scores p) n = Inr (map Flt sc)"
    have "primaryPass D calc h (WASM_PTR a) nCand =
            Inr (calc h (guessesFlat p) n (currentCandidatesA p) nCand (scores p) 0,
                 extremalIndices False sc n)"
      using primaryPass_numbers [of D calc h "WASM_PTR a" nCand sc] ge v
      by (simp add: call assms(4,5))
    then show "calculateBestGuess D calc a =
        answersAndSelect D a
          (calc h (guessesFlat p) n (currentCandidatesA p) nCand (scores p) 0,
           extremalIndices False sc n)"
      by (simp add: calculateBestGuess_scored [OF assms(1,2) one]
          tieBreaksAndSelect_entropy_regime [OF ge])
  }
qed

theorem metric_choice_witness:
  "calculateBestGuess exampleData exampleScores exampleApp =
     tieBreaksAndSelect exampleData exampleScores exampleApp 4 (exampleHeapM, [1, 2, 3]) \<and>
   calculateBestGuess exampleData exampleScores exampleApp =
     Inr (exampleApp\<lparr>Module := Some exampleHeapE,
            STATE := exampleState\<lparr>currentGuessWord := ''BBBBB''\<rparr>\<rparr>) \<and>
   float64_view (bigScores bigHeap 0 31 744 31 992 1) 992 31 =
     Inr (map Flt ((replicate 31 (Fin 2))[3 := Fin 1, 9 := Fin 5])) \<and>
   extremalIndices True ((replicate 31 (Fin 2))[3 := Fin 1, 9 := Fin 5]) 31 = [3] \<and>
   extremalIndices False ((replicate 31 (Fin 2))[3 := Fin 1, 9 := Fin 5]) 31 = [9] \<and>
   calculateBestGuess bigData bigScores bigApp = answersAndSelect bigData bigApp (bigHeapE, [7]) \<and>
   calculateBestGuess bigData bigScores bigApp =
     Inr (bigApp\<lparr>Module := Some bigHeapE,
            STATE := (STATE bigApp)\<lparr>currentGuessWord := ''HHHHH''\<rparr>\<rparr>)"
proof -
  have two: "(2::nat) \<le> 4" "(2::nat) \<le> 31" by simp_all
  have vM: "float64_view
              (exampleScores exampleHeap (guessesFlat examplePtr) 6
                 (currentCandidatesA examplePtr) 4 (scores examplePtr) 1)
              (scores examplePtr) 6
            = Inr (map Flt [Fin 3, Fin 1, Fin 1, Fin 1, Fin 2, Fin 2])"
    by (simp add: ex_cands ex_calls ex_view_M)
  have vE: "float64_view
              (bigScores bigHeap (guessesFlat bigPtr) 31 (currentCandidatesA bigPtr) 31
                 (scores bigPtr) 0)
              (scores bigPtr) 31
            = Inr (map Flt ((replicate 31 (Fin 1))[7 := Fin 3]))"
    by (simp add: big_cands big_call big_view_E)
  have small: "calculateBestGuess exampleData exampleScores exampleApp =
     tieBreaksAndSelect exampleData exampleScores exampleApp 4 (exampleHeapM, [1, 2, 3])"
    using metric_choice [OF ex_cands(1,2) two(1) ex_cands(3,4), of exampleScores
        "[Fin 3, Fin 1, Fin 1, Fin 1, Fin 2, Fin 2]"] vM
    by (simp del: One_nat_def add: ex_cands ex_calls ex_least)
  have big: "calculateBestGuess bigData bigScores bigApp =
     answersAndSelect bigData bigApp (bigHeapE, [7])"
    using metric_choice [OF big_cands(1,2) two(2) big_cands(3,4), of bigScores
        "(replicate 31 (Fin 1))[7 := Fin 3]"] vE
    by (simp add: big_cands big_call big_extremes)
  show ?thesis
    using small big by (simp del: One_nat_def add: ex_selected big_selected big_view_M big_extremes)
qed

text \<open>
  Claim C6. Let the primary call of \<open>calculateBestGuess\<close>, on two candidates or
  more, have left the heap \<open>hP\<close> with scores that are numbers, and let \<open>tied\<close> be
  the indices that attain the extremal score. If the primary metric was minimax
  (fewer than 31 candidates) and more than one index is tied, the export is called
  again, on the heap \<open>hP\<close> and with \<open>is_minimax = 0\<close>, for the entropies, and the
  function goes on with the tied indices of greatest entropy among the tied ones.
  In every other case the export is not called again and the function goes on with
  \<open>tied\<close> as it is.
\<close>

theorem entropy_tie_break:
  assumes "Module a = Some h" "length (currentCandidates (STATE a)) = nCand" "2 \<le> nCand"
    and "WASM_PTR a = p" "N_TOTAL_GUESSES D = n"
    and "hP = calc h (guessesFlat p) n (currentCandidatesA p) nCand (scores p)
               (if nCand < 31 then 1 else 0)"
    and "float64_view hP (scores p) n = Inr (map Flt sc)"
    and "tied = extremalIndices (nCand < 31) sc n"
  shows "(nCand < 31 \<and> 1 < length tied \<longrightarrow>
            float64_view
              (calc hP (guessesFlat p) n (currentCandidatesA p) nCand (scores p) 0)
              (scores p) n = Inr (map Flt en) \<longrightarrow>
            calculateBestGuess D calc a =
              answersAndSelect D a
                (calc hP (guessesFlat p) n (currentCandidatesA p) nCand (scores p) 0,
                 greatestAmong en tied)) \<and>
         (\<not> (nCand < 31 \<and> 1 < length tied) \<longrightarrow>
            calculateBestGuess D calc a = answersAndSelect D a (hP, tied))"
proof -
  have one: "nCand \<noteq> 1" using assms(3) by simp
  have call: "\<And>h' flag. scoreCall D calc h' p nCand flag =
      calc h' (guessesFlat p) n (currentCandidatesA p) nCand (scores p) flag"
    by (simp add: scoreCall_def assms(5))
  have pp: "primaryPass D calc h (WASM_PTR a) nCand = Inr (hP, tied)"
    using primaryPass_numbers [of D calc h "WASM_PTR a" nCand sc] assms(6,7,8)
    by (simp add: call assms(4,5))
  have eq: "calculateBestGuess D calc a = tieBreaksAndSelect D calc a nCand (hP, tied)"
    by (simp add: calculateBestGuess_scored [OF assms(1,2) one] pp)
  have b: "\<forall>i\<in>set tied. i < N_TOTAL_GUESSES D"
    using extremalIndices_bound assms(5,8) by blast
  show ?thesis
  proof (intro conjI impI)
    assume c: "nCand < 31 \<and> 1 < length tied"
      and v: "float64_view
              (calc hP (guessesFlat p) n (currentCandidatesA p) nCand (scores p) 0)
              (scores p) n = Inr (map Flt en)"
    have "entropyPass D calc (WASM_PTR a) nCand (hP, tied) =
            Inr (scoreCall D calc hP (WASM_PTR a) nCand 0, greatestAmong en tied)"
      using c b v by (intro entropyPass_applied) (simp_all add: call assms(4,5))
    then show "calculateBestGuess D calc a =
        answersAndSelect D a
          (calc hP (guessesFlat p) n (currentCandidatesA p) nCand (scores p) 0,
           greatestAmong en tied)"
      by (simp add: eq tieBreaksAndSelect_def call assms(4))
  next
    assume "\<not> (nCand < 31 \<and> 1 < length tied)"
    then have "entropyPass D calc (WASM_PTR a) nCand (hP, tied) = Inr (hP, tied)"
      by (rule entropyPass_skipped)
    then show "calculateBestGuess D calc a = answersAndSelect D a (hP, tied)"
      by (simp add: eq tieBreaksAndSelect_def)
  qed
qed

theorem entropy_tie_break_witness:
  "extremalIndices True [Fin 3, Fin 1, Fin 1, Fin 1, Fin 2, Fin 2] 6 = [1, 2, 3] \<and>
   float64_view exampleHeapE 192 6 = Inr (map Flt [Fin 1, Fin 4, Fin 2, Fin 4, Fin 5, Fin 1]) \<and>
   greatestAmong [Fin 1, Fin 4, Fin 2, Fin 4, Fin 5, Fin 1] [1, 2, 3] = [1, 3] \<and>
   calculateBestGuess exampleData exampleScores exampleApp =
     answersAndSelect exampleData exampleApp (exampleHeapE, [1, 3]) \<and>
   calculateBestGuess bigData bigScores bigApp = answersAndSelect bigData bigApp (bigHeapE, [7])"
proof -
  have two: "(2::nat) \<le> 4" "(2::nat) \<le> 31" by simp_all
  have hP: "exampleHeapM =
      exampleScores exampleHeap (guessesFlat examplePtr) 6 (currentCandidatesA examplePtr) 4
        (scores examplePtr) (if (4::nat) < 31 then 1 else 0)"
    by (simp add: ex_cands ex_calls)
  have vM: "float64_view exampleHeapM (scores examplePtr) 6
            = Inr (map Flt [Fin 3, Fin 1, Fin 1, Fin 1, Fin 2, Fin 2])"
    by (simp add: ex_cands ex_view_M)
  have t: "[1, 2, 3] = extremalIndices ((4::nat) < 31) [Fin 3, Fin 1, Fin 1, Fin 1, Fin 2, Fin 2] 6"
    by (simp add: ex_least)
  have vE: "float64_view
              (exampleScores exampleHeapM (guessesFlat examplePtr) 6
                 (currentCandidatesA examplePtr) 4 (scores examplePtr) 0)
              (scores examplePtr) 6
            = Inr (map Flt [Fin 1, Fin 4, Fin 2, Fin 4, Fin 5, Fin 1])"
    by (simp add: ex_cands ex_calls ex_view_E)
  have small: "calculateBestGuess exampleData exampleScores exampleApp =
     answersAndSelect exampleData exampleApp (exampleHeapE, [1, 3])"
    using entropy_tie_break [where calc = exampleScores
        and en = "[Fin 1, Fin 4, Fin 2, Fin 4, Fin 5, Fin 1]",
        OF ex_cands(1,2) two(1) ex_cands(3,4) hP vM t] vE
    by (simp del: One_nat_def add: ex_cands ex_calls ex_greatest)
  have bP: "bigHeapE =
      bigScores bigHeap (guessesFlat bigPtr) 31 (currentCandidatesA bigPtr) 31 (scores bigPtr)
        (if (31::nat) < 31 then 1 else 0)"
    by (simp add: big_cands big_call)
  have bv: "float64_view bigHeapE (scores bigPtr) 31
            = Inr (map Flt ((replicate 31 (Fin 1))[7 := Fin 3]))"
    by (simp add: big_cands big_view_E)
  have bt: "[7] = extremalIndices ((31::nat) < 31) ((replicate 31 (Fin 1))[7 := Fin 3]) 31"
    by (simp add: big_extremes)
  have big: "calculateBestGuess bigData bigScores bigApp =
     answersAndSelect bigData bigApp (bigHeapE, [7])"
    using entropy_tie_break [where calc = bigScores, OF big_cands(1,2) two(2) big_cands(3,4) bP bv bt]
    by simp
  show ?thesis
    using small big by (simp del: One_nat_def add: ex_least ex_view_E ex_greatest)
qed

lemma answerTieBreak_answers:
  assumes "\<forall>i\<in>set b. i < length am"
  shows "answerTieBreak am b = answersAmong am b"
proof -
  have "filter (\<lambda>i. array_get am i = Some 1) b = filter (\<lambda>i. am ! i = 1) b"
    using assms by (intro filter_cong) (auto simp: array_get_def)
  then show ?thesis
    by (auto simp: answerTieBreak_def answersAmong_def Let_def filter_empty_conv)
qed

lemma answersAmong_filter: "\<exists>P. answersAmong am b = filter P b"
proof (cases "\<exists>i\<in>set b. am ! i = 1")
  case True
  then show ?thesis unfolding answersAmong_def by auto
next
  case False
  have "b = filter (\<lambda>_. True) b" by simp
  then show ?thesis using False unfolding answersAmong_def by (simp only: if_False) blast
qed

lemma answersAmong_nonempty: "b \<noteq> [] \<Longrightarrow> answersAmong am b \<noteq> []"
  by (auto simp: answersAmong_def filter_empty_conv)

lemma sorted_hd_Min:
  fixes s :: "nat list"
  assumes "sorted_wrt (<) s" "s \<noteq> []"
  shows "hd s = Min (set s)"
proof -
  have "hd s \<in> set s \<and> (\<forall>i\<in>set s. hd s \<le> i)"
    using assms by (cases s) (auto simp: less_imp_le)
  then show ?thesis
    by (metis List.finite_set Min_eqI)
qed

lemma finalSelection_least:
  assumes "sorted_wrt (<) s" "s \<noteq> []"
  shows "finalSelection D a (h, s) = guessAtIndex D a h (Min (set s))"
proof -
  have "readFinalGuess h (WASM_PTR a) s = readAtIndex h (WASM_PTR a) (int (hd s))"
    using assms(2) by (cases s) (simp_all add: readFinalGuess_def)
  then show ?thesis
    using sorted_hd_Min [OF assms]
    by (auto simp: finalSelection_def guessAtIndex_def split: sum.splits)
qed

lemma answersAndSelect_least:
  assumes "sorted_wrt (<) tied" "tied \<noteq> []" "\<forall>i\<in>set tied. i < N_TOTAL_GUESSES D"
  shows "answersAndSelect D a (hE, tied) =
           (if 1 < length tied then
              (case int32_view hE (int (isPossibleAnswer (WASM_PTR a))) (int (N_TOTAL_GUESSES D)) of
                 Inl e \<Rightarrow> Inl e
               | Inr am \<Rightarrow> guessAtIndex D a hE (Min (set (answersAmong am tied))))
            else guessAtIndex D a hE (Min (set tied)))"
proof (cases "1 < length tied")
  case False
  then show ?thesis
    using finalSelection_least [OF assms(1,2)]
    by (simp add: answersAndSelect_def answerPass_def)
next
  case True
  show ?thesis
  proof (cases "int32_view hE (int (isPossibleAnswer (WASM_PTR a))) (int (N_TOTAL_GUESSES D))")
    case (Inl e)
    then show ?thesis using True by (simp add: answersAndSelect_def answerPass_def)
  next
    case (Inr am)
    then have "length am = N_TOTAL_GUESSES D"
      using int32_view_length by fastforce
    then have eq: "answerTieBreak am tied = answersAmong am tied"
      using assms(3) by (intro answerTieBreak_answers) simp
    have "sorted_wrt (<) (answersAmong am tied)"
      using answersAmong_filter [of am tied] assms(1) by (auto intro: sorted_wrt_filter)
    then have "finalSelection D a (hE, answersAmong am tied) =
                 guessAtIndex D a hE (Min (set (answersAmong am tied)))"
      using answersAmong_nonempty [OF assms(2)] by (rule finalSelection_least)
    then show ?thesis
      using True Inr by (simp add: answersAndSelect_def answerPass_def eq)
  qed
qed

lemma ex_passes:
  "primaryPass exampleData exampleScores exampleHeap (WASM_PTR exampleApp) 4 =
     Inr (exampleHeapM, [1, 2, 3])"
  "entropyPass exampleData exampleScores (WASM_PTR exampleApp) 4 (exampleHeapM, [1, 2, 3]) =
     Inr (exampleHeapE, [1, 3])"
  by code_simp+

lemma ex_mask:
  "int32_view exampleHeapE (int (isPossibleAnswer (WASM_PTR exampleApp)))
     (int (N_TOTAL_GUESSES exampleData)) = Inr exampleMask"
  "answersAmong exampleMask [1, 3] = [1, 3]"
  by code_simp+

lemma ex_guess_1:
  "guessAtIndex exampleData exampleApp exampleHeapE 1 =
     Inr (exampleApp\<lparr>Module := Some exampleHeapE,
            STATE := exampleState\<lparr>currentGuessWord := ''BBBBB''\<rparr>\<rparr>)"
  by code_simp

text \<open>
  Claim C7. Let the primary pass and tie-break A of \<open>calculateBestGuess\<close>, on two
  candidates or more, have left the heap \<open>hE\<close> and the tied indices \<open>tied\<close>, not
  empty. If more than one index is tied, the answer mask is read from the heap and
  the guess becomes the word of the least index among the tied indices that the
  mask flags, or among all the tied indices if it flags none. Otherwise the guess
  becomes the word of the least tied index, and the mask is not read. When the guess
  table is not empty and the scores are numbers, \<open>tied\<close> is not empty.
\<close>

theorem answer_tie_break_final_selection:
  assumes "Module a = Some h" "length (currentCandidates (STATE a)) = nCand" "2 \<le> nCand"
    and "primaryPass D calc h (WASM_PTR a) nCand = Inr (hP, best)"
    and "entropyPass D calc (WASM_PTR a) nCand (hP, best) = Inr (hE, tied)"
  shows "(tied \<noteq> [] \<longrightarrow>
            calculateBestGuess D calc a =
              (if 1 < length tied then
                 (case int32_view hE (int (isPossibleAnswer (WASM_PTR a)))
                         (int (N_TOTAL_GUESSES D)) of
                    Inl e \<Rightarrow> Inl e
                  | Inr am \<Rightarrow> guessAtIndex D a hE (Min (set (answersAmong am tied))))
               else guessAtIndex D a hE (Min (set tied)))) \<and>
         (0 < N_TOTAL_GUESSES D \<longrightarrow>
            numberScores hP (WASM_PTR a) (N_TOTAL_GUESSES D) \<longrightarrow>
            numberScores hE (WASM_PTR a) (N_TOTAL_GUESSES D) \<longrightarrow> tied \<noteq> [])"
proof (intro conjI impI)
  have one: "nCand \<noteq> 1" using assms(3) by simp
  note pr = primaryPass_result [OF assms(4)]
  obtain P where P: "tied = filter P best"
    using entropyPass_result [OF assms(5)] by blast
  have srt: "sorted_wrt (<) tied"
    using pr P by (auto intro: sorted_wrt_filter)
  have bnd: "\<forall>i\<in>set tied. i < N_TOTAL_GUESSES D"
    using pr P by auto
  have eq: "calculateBestGuess D calc a = answersAndSelect D a (hE, tied)"
    by (simp add: calculateBestGuess_scored [OF assms(1,2) one] assms(4,5) tieBreaksAndSelect_def)
  {
    assume "tied \<noteq> []"
    then show "calculateBestGuess D calc a =
        (if 1 < length tied then
           (case int32_view hE (int (isPossibleAnswer (WASM_PTR a))) (int (N_TOTAL_GUESSES D)) of
              Inl e \<Rightarrow> Inl e
            | Inr am \<Rightarrow> guessAtIndex D a hE (Min (set (answersAmong am tied))))
         else guessAtIndex D a hE (Min (set tied)))"
      unfolding eq using srt bnd by (intro answersAndSelect_least) simp_all
  }
  {
    assume N: "0 < N_TOTAL_GUESSES D"
      and nP: "numberScores hP (WASM_PTR a) (N_TOTAL_GUESSES D)"
      and nE: "numberScores hE (WASM_PTR a) (N_TOTAL_GUESSES D)"
    obtain sc where sc: "float64_view hP (scores (WASM_PTR a)) (N_TOTAL_GUESSES D) = Inr (map Flt sc)"
      using nP by (auto simp: numberScores_def)
    have len: "length sc = N_TOTAL_GUESSES D"
      using sc by (rule float64_view_numbers_length)
    have best: "best = extremalIndices (nCand < 31) sc (N_TOTAL_GUESSES D)"
      using pr sc len by (auto simp: findBest_extremal)
    have bne: "best \<noteq> []"
      unfolding best using N len by (intro extremalIndices_nonempty) simp_all
    show "tied \<noteq> []"
    proof (cases "nCand < 31 \<and> 1 < length best")
      case False
      then show ?thesis using assms(5) bne by (simp add: entropyPass_skipped)
    next
      case True
      obtain en where en: "float64_view hE (scores (WASM_PTR a)) (N_TOTAL_GUESSES D) = Inr (map Flt en)"
        using nE by (auto simp: numberScores_def)
      have hE: "hE = scoreCall D calc hP (WASM_PTR a) nCand 0"
        using True assms(5) by (auto simp: entropyPass_def Let_def useMinimax_def split: sum.splits)
      have "entropyPass D calc (WASM_PTR a) nCand (hP, best) =
              Inr (scoreCall D calc hP (WASM_PTR a) nCand 0, greatestAmong en best)"
        using True pr en unfolding hE by (intro entropyPass_applied) simp_all
      then have "tied = greatestAmong en best"
        using assms(5) by simp
      then show ?thesis using greatestAmong_nonempty [OF bne] by simp
    qed
  }
qed

theorem answer_tie_break_final_selection_witness:
  "primaryPass exampleData exampleScores exampleHeap (WASM_PTR exampleApp) 4 =
     Inr (exampleHeapM, [1, 2, 3]) \<and>
   entropyPass exampleData exampleScores (WASM_PTR exampleApp) 4 (exampleHeapM, [1, 2, 3]) =
     Inr (exampleHeapE, [1, 3]) \<and>
   int32_view exampleHeapE (int (isPossibleAnswer (WASM_PTR exampleApp)))
     (int (N_TOTAL_GUESSES exampleData)) = Inr exampleMask \<and>
   answersAmong exampleMask [1, 3] = [1, 3] \<and>
   calculateBestGuess exampleData exampleScores exampleApp =
     guessAtIndex exampleData exampleApp exampleHeapE 1 \<and>
   calculateBestGuess exampleData exampleScores exampleApp =
     Inr (exampleApp\<lparr>Module := Some exampleHeapE,
            STATE := exampleState\<lparr>currentGuessWord := ''BBBBB''\<rparr>\<rparr>)"
proof -
  have two: "(2::nat) \<le> 4" by simp
  have "calculateBestGuess exampleData exampleScores exampleApp =
     guessAtIndex exampleData exampleApp exampleHeapE 1"
    using answer_tie_break_final_selection [OF ex_cands(1,2) two ex_passes]
    by (simp del: One_nat_def add: ex_mask)
  then show ?thesis
    by (simp del: One_nat_def add: ex_passes ex_mask ex_guess_1)
qed

section \<open>Reads of the word table\<close>

lemma int32_view_inside:
  assumes "ptr mod 4 = 0" "ptr div 4 + k + n \<le> length h"
  shows "int32_view h (int ptr + int k * 4) (int n) = Inr (take n (drop (ptr div 4 + k) h))"
proof -
  have p: "int ptr = 4 * int (ptr div 4)"
    using assms(1) by (metis mod_0_imp_dvd dvd_mult_div_cancel of_nat_mult of_nat_numeral)
  have d: "(int ptr + int k * 4) div 4 = int (ptr div 4 + k)"
    by (subst p) simp
  have m: "(int ptr + int k * 4) mod 4 = 0"
    by (subst p) simp
  have b: "int ptr + int k * 4 + 4 * int n \<le> 4 * int (length h)"
    using assms(2) by (subst p) linarith
  show ?thesis
    unfolding int32_view_def using m b by (simp add: d del: of_nat_add)
qed

lemma table_window:
  assumes "tableAt h ptr T" "k + n \<le> length T"
  shows "take n (drop (ptr div 4 + k) h) = take n (drop k T)"
proof -
  have T: "T = take (length T) (drop (ptr div 4) h)"
    using assms(1) by (simp add: tableAt_def)
  have "take n (drop k T) = take n (drop k (take (length T) (drop (ptr div 4) h)))"
    using T by simp
  also have "\<dots> = take n (take (length T - k) (drop k (drop (ptr div 4) h)))"
    by (simp add: drop_take)
  also have "\<dots> = take n (drop (ptr div 4 + k) h)"
    using assms(2) by (simp add: min_def add.commute)
  finally show ?thesis by simp
qed

lemma readAtStartPos_table:
  assumes "tableAt h (guessesFlat p) T" "0 \<le> v" "nat v + 5 \<le> length T"
  shows "readAtStartPos h p v = Inr (take 5 (drop (nat v) T))"
proof -
  have a: "guessesFlat p mod 4 = 0" "guessesFlat p div 4 + length T \<le> length h"
    using assms(1) by (simp_all add: tableAt_def)
  have "int32_view h (int (guessesFlat p) + int (nat v) * 4) (int 5)
          = Inr (take 5 (drop (guessesFlat p div 4 + nat v) h))"
    using a assms(3) by (intro int32_view_inside) simp_all
  then show ?thesis
    using assms(2) table_window [OF assms(1), of "nat v" 5] assms(3)
    by (simp add: readAtStartPos_def)
qed

lemma calculateBestGuess_single:
  assumes "Module a = Some h" "currentCandidates (STATE a) = [v]"
  shows "calculateBestGuess D calc a =
           (case readAtStartPos h (WASM_PTR a) v of
              Inl e \<Rightarrow> Inl e
            | Inr wordInts \<Rightarrow>
                Inr (a\<lparr>STATE := (STATE a)\<lparr>currentGuessWord := intVecToString (LETTERS D) wordInts\<rparr>\<rparr>))"
  using assms by (simp add: calculateBestGuess_def Let_def)

lemma ex_tableAt: "tableAt exampleHeap (guessesFlat examplePtr) exampleTable"
  by code_simp

text \<open>
  Claim C4. With exactly one candidate, the entry \<open>v\<close>, \<open>calculateBestGuess\<close>
  gives the same result whatever the score export computes (it is not called), and,
  when the heap holds the word table and \<open>v\<close> is a position of the table with
  five integers from it on, it succeeds and sets the guess to the word made of the
  five integers that start at position \<open>v\<close> of the flat table (the entry is a
  start position, as the comment on \<open>STATE.currentCandidates\<close> says), leaving
  everything else as it was.
\<close>

theorem single_candidate_short_circuit:
  assumes "Module a = Some h" "currentCandidates (STATE a) = [v]"
  shows "calculateBestGuess D calc a = calculateBestGuess D calc' a \<and>
         (tableAt h (guessesFlat (WASM_PTR a)) T \<longrightarrow> 0 \<le> v \<longrightarrow> nat v + 5 \<le> length T \<longrightarrow>
            calculateBestGuess D calc a =
              Inr (a\<lparr>STATE := (STATE a)\<lparr>currentGuessWord :=
                        intVecToString (LETTERS D) (take 5 (drop (nat v) T))\<rparr>\<rparr>))"
proof (intro conjI impI)
  show "calculateBestGuess D calc a = calculateBestGuess D calc' a"
    by (simp only: calculateBestGuess_single [OF assms])
next
  assume "tableAt h (guessesFlat (WASM_PTR a)) T" "0 \<le> v" "nat v + 5 \<le> length T"
  then have "readAtStartPos h (WASM_PTR a) v = Inr (take 5 (drop (nat v) T))"
    by (rule readAtStartPos_table)
  then show "calculateBestGuess D calc a =
      Inr (a\<lparr>STATE := (STATE a)\<lparr>currentGuessWord :=
                intVecToString (LETTERS D) (take 5 (drop (nat v) T))\<rparr>\<rparr>)"
    by (simp add: calculateBestGuess_single [OF assms])
qed

lemma ex_single: "Module singleApp = Some exampleHeap \<and> currentCandidates (STATE singleApp) = [5] \<and>
   WASM_PTR singleApp = examplePtr \<and> STATE singleApp = exampleState\<lparr>currentCandidates := [5]\<rparr>"
  by (simp add: singleApp_def exampleApp_def)

lemma ex_word: "intVecToString (LETTERS exampleData) (take 5 (drop (nat 5) exampleTable)) = ''BBBBB''"
  by code_simp

theorem single_candidate_short_circuit_witness:
  "Module singleApp = Some exampleHeap \<and> currentCandidates (STATE singleApp) = [5] \<and>
   tableAt exampleHeap (guessesFlat (WASM_PTR singleApp)) exampleTable \<and>
   calculateBestGuess exampleData exampleScores singleApp =
     Inr (singleApp\<lparr>STATE := (STATE singleApp)\<lparr>currentGuessWord := ''BBBBB''\<rparr>\<rparr>)"
  using single_candidate_short_circuit [of singleApp exampleHeap 5 exampleData exampleScores exampleScores exampleTable]
    ex_tableAt ex_single ex_word
  by (simp add: exampleTable_def)

section \<open>The submit handler\<close>

lemma acceptedKey:
  "eventKey \<in> {None, Some [], Some ''Enter''} \<Longrightarrow>
     \<not> (case eventKey of None \<Rightarrow> False | Some k \<Rightarrow> k \<noteq> [] \<and> k \<noteq> ''Enter'')"
  by auto

lemma all_green_iff: "list_all (\<lambda>c. c = ''G'') fb \<longleftrightarrow> (\<forall>c\<in>set fb. c = ''G'')"
  by (simp add: list_all_iff)

text \<open>
  Claim C10. When every tile of the submitted feedback is green, the submit handler
  records the guess in the history, ends the game and returns: the result is the same
  whatever the filter and score exports compute (neither is called), and the
  candidates, the heap and the pointers are those of before, also when two or more
  candidates remain.
\<close>

theorem all_green_submit:
  assumes "eventKey \<in> {None, Some [], Some ''Enter''}"
    and "Module a = Some h"
    and "\<not> gameOver (STATE a)" "\<not> isCalculating (STATE a)"
    and "\<forall>c\<in>set (feedbackState (STATE a)). c = ''G''"
  shows "handleSubmitFeedback D calc filt eventKey a =
           Inr (a\<lparr>STATE := (STATE a)\<lparr>
                  history := history (STATE a) @ [(currentGuessWord (STATE a), feedbackState (STATE a))],
                  gameOver := True\<rparr>\<rparr>)"
  using assms(2-5) acceptedKey [OF assms(1)]
  by (simp add: handleSubmitFeedback_def Let_def all_green_iff)

lemma ex_green: "Module greenApp = Some exampleHeap \<and> \<not> gameOver (STATE greenApp) \<and>
   \<not> isCalculating (STATE greenApp) \<and> feedbackState (STATE greenApp) = greenFeedback \<and>
   currentCandidates (STATE greenApp) = [0, 5, 15, 25] \<and> currentGuessWord (STATE greenApp) = ''SOARE'' \<and>
   history (STATE greenApp) = []"
  by (simp add: greenApp_def exampleApp_def exampleState_def)

theorem all_green_submit_witness:
  "Module greenApp = Some exampleHeap \<and> \<not> gameOver (STATE greenApp) \<and>
   \<not> isCalculating (STATE greenApp) \<and> feedbackState (STATE greenApp) = greenFeedback \<and>
   currentCandidates (STATE greenApp) = [0, 5, 15, 25] \<and>
   handleSubmitFeedback exampleData exampleScores keepAll None greenApp =
     Inr (greenApp\<lparr>STATE := (STATE greenApp)\<lparr>history := [(''SOARE'', greenFeedback)], gameOver := True\<rparr>\<rparr>)"
  using all_green_submit [of None greenApp exampleHeap exampleData exampleScores keepAll] ex_green
  by (simp add: greenFeedback_def)

lemma calculateBestGuess_frame:
  assumes "calculateBestGuess D calc a = Inr a'"
  shows "WASM_PTR a' = WASM_PTR a \<and>
         currentCandidates (STATE a') = currentCandidates (STATE a) \<and>
         feedbackState (STATE a') = feedbackState (STATE a) \<and>
         history (STATE a') = history (STATE a) \<and>
         gameOver (STATE a') = gameOver (STATE a) \<and>
         (length (currentCandidates (STATE a)) \<noteq> 1 \<longrightarrow> \<not> isCalculating (STATE a'))"
  using assms
  by (auto simp: calculateBestGuess_def tieBreaksAndSelect_def answersAndSelect_def
      finalSelection_def Let_def split: option.splits sum.splits if_splits)

lemma handleSubmitFeedback_filtered:
  assumes "eventKey \<in> {None, Some [], Some ''Enter''}"
    and "Module a = Some h"
    and "\<not> gameOver (STATE a)" "\<not> isCalculating (STATE a)"
    and "\<exists>c\<in>set (feedbackState (STATE a)). c \<noteq> ''G''"
    and "heap_set h (stringToIntVec (currentGuessWord (STATE a)))
           (guessWordVec (WASM_PTR a) div 4) = Inr h1"
    and "filt h1 (guessWordVec (WASM_PTR a)) (toInt32 (encodePattern (feedbackState (STATE a))))
           (guessesFlat (WASM_PTR a)) (currentCandidatesA (WASM_PTR a))
           (length (currentCandidates (STATE a))) (currentCandidatesB (WASM_PTR a)) = (n, h2)"
  shows "handleSubmitFeedback D calc filt eventKey a =
     (if n = 0 then
        Inr (a\<lparr>Module := Some h2,
               STATE := (recorded (STATE a))\<lparr>gameOver := True, currentGuessWord := ''ERROR'',
                                            feedbackState := errorFeedback\<rparr>\<rparr>)
      else if n = 1 then
        (case int32_view h2 (int (currentCandidatesB (WASM_PTR a))) 1 of
           Inl e \<Rightarrow> Inl e
         | Inr view \<Rightarrow>
             (case readAtIndex h2 (WASM_PTR a) (view ! 0) of
                Inl e \<Rightarrow> Inl e
              | Inr wordInts \<Rightarrow>
                  Inr (a\<lparr>Module := Some h2,
                         STATE := (recorded (STATE a))\<lparr>gameOver := True,
                                    currentGuessWord := intVecToString (LETTERS D) wordInts,
                                    feedbackState := greenFeedback\<rparr>\<rparr>)))
      else
        (case int32_view h2 (int (currentCandidatesB (WASM_PTR a))) n of
           Inl e \<Rightarrow> Inl e
         | Inr newC \<Rightarrow>
             (case calculateBestGuess D calc
                     (a\<lparr>Module := Some h2, WASM_PTR := swappedPtr (WASM_PTR a),
                        STATE := (recorded (STATE a))\<lparr>currentCandidates := newC\<rparr>\<rparr>) of
                Inl e \<Rightarrow> Inl e
              | Inr a2 \<Rightarrow> Inr (a2\<lparr>STATE := (STATE a2)\<lparr>feedbackState := blankFeedback\<rparr>\<rparr>))))"
proof -
  have g: "\<not> list_all (\<lambda>c. c = ''G'') (feedbackState (STATE a))"
    using assms(5) by (simp add: list_all_iff)
  show ?thesis
    using assms(2-4,6,7) acceptedKey [OF assms(1)] g
    by (auto simp: handleSubmitFeedback_def Let_def recorded_def swappedPtr_def errorFeedback_def
        greenFeedback_def split: sum.splits)
qed


lemma ex_app_fields:
  "Module exampleApp = Some exampleHeap" "WASM_PTR exampleApp = examplePtr"
  "STATE exampleApp = exampleState"
  by (simp_all add: exampleApp_def)

lemma ex_active:
  "\<not> gameOver (STATE exampleApp)" "\<not> isCalculating (STATE exampleApp)"
  "\<exists>c\<in>set (feedbackState (STATE exampleApp)). c \<noteq> ''G''"
  by (simp_all add: exampleApp_def exampleState_def blankFeedback_def)

lemma ex_heap_set:
  "heap_set exampleHeap (stringToIntVec (currentGuessWord (STATE exampleApp)))
     (guessWordVec (WASM_PTR exampleApp) div 4) = Inr exampleHeap1"
  by code_simp

lemma ex_keepNone:
  "keepNone exampleHeap1 (guessWordVec (WASM_PTR exampleApp))
     (toInt32 (encodePattern (feedbackState (STATE exampleApp))))
     (guessesFlat (WASM_PTR exampleApp)) (currentCandidatesA (WASM_PTR exampleApp))
     (length (currentCandidates (STATE exampleApp))) (currentCandidatesB (WASM_PTR exampleApp))
   = (0, exampleHeap1)"
  by (simp add: keepNone_def)

lemma ex_keepEntry:
  "keepEntry 1 exampleHeap1 (guessWordVec (WASM_PTR exampleApp))
     (toInt32 (encodePattern (feedbackState (STATE exampleApp))))
     (guessesFlat (WASM_PTR exampleApp)) (currentCandidatesA (WASM_PTR exampleApp))
     (length (currentCandidates (STATE exampleApp))) (currentCandidatesB (WASM_PTR exampleApp))
   = (1, exampleHeap1[42 := 5])"
  by code_simp

lemma ex_keepEntry_view:
  "int32_view (exampleHeap1[42 := 5]) (int (currentCandidatesB (WASM_PTR exampleApp))) 1 = Inr [5]"
  "readAtIndex (exampleHeap1[42 := 5]) (WASM_PTR exampleApp) 5 = Inr [6, 6, 6, 6, 6]"
  by code_simp+

lemma ex_keepAll:
  "keepAll exampleHeap1 (guessWordVec (WASM_PTR exampleApp))
     (toInt32 (encodePattern (feedbackState (STATE exampleApp))))
     (guessesFlat (WASM_PTR exampleApp)) (currentCandidatesA (WASM_PTR exampleApp))
     (length (currentCandidates (STATE exampleApp))) (currentCandidatesB (WASM_PTR exampleApp))
   = (4, exampleHeap2)"
  by code_simp

lemma ex_keepAll_view:
  "int32_view exampleHeap2 (int (currentCandidatesB (WASM_PTR exampleApp))) 4 = Inr [0, 5, 15, 25]"
  by code_simp

lemma ex_next_guess:
  "calculateBestGuess exampleData exampleScores
     (exampleApp\<lparr>Module := Some exampleHeap2, WASM_PTR := swappedPtr (WASM_PTR exampleApp),
        STATE := (recorded (STATE exampleApp))\<lparr>currentCandidates := [0, 5, 15, 25]\<rparr>\<rparr>)
   = Inr (exampleApp\<lparr>Module := Some exampleHeap3, WASM_PTR := swappedPtr examplePtr,
        STATE := (recorded exampleState)\<lparr>currentGuessWord := ''BBBBB''\<rparr>\<rparr>)"
  by code_simp

text \<open>
  Claim C1, as the code has it. Take a submission (a click or the Enter key) from
  the active state, with the module loaded, whose feedback is not all green and
  whose guess is written to the guess buffer inside the heap; the filter export is
  then applied. With count 0 the handler returns,
  without an exception, the terminal error state (game over, guess \<open>ERROR\<close>).
  With count 1, if the read of the first entry of buffer B and the read of the word
  that follows lie inside the heap, it returns a terminal solved state (game over,
  five green tiles; which word it shows is the matter of claim C3 and is not stated
  here). With count 2 or more, if the read of that many entries of buffer B lies
  inside the heap, it takes them as the new candidates, swaps the buffers and runs
  \<open>calculateBestGuess\<close> on that state before it returns: an exception of that
  call is the handler's, and when the call succeeds the game is active (not over,
  not calculating) with the new candidates, blank feedback and the swapped
  pointers.
\<close>

theorem submit_transitions:
  assumes "eventKey \<in> {None, Some [], Some ''Enter''}"
    and "Module a = Some h"
    and "\<not> gameOver (STATE a)" "\<not> isCalculating (STATE a)"
    and "\<exists>c\<in>set (feedbackState (STATE a)). c \<noteq> ''G''"
    and "heap_set h (stringToIntVec (currentGuessWord (STATE a)))
           (guessWordVec (WASM_PTR a) div 4) = Inr h1"
    and "filt h1 (guessWordVec (WASM_PTR a)) (toInt32 (encodePattern (feedbackState (STATE a))))
           (guessesFlat (WASM_PTR a)) (currentCandidatesA (WASM_PTR a))
           (length (currentCandidates (STATE a))) (currentCandidatesB (WASM_PTR a)) = (n, h2)"
  shows "(n = 0 \<longrightarrow>
            handleSubmitFeedback D calc filt eventKey a =
              Inr (a\<lparr>Module := Some h2,
                     STATE := (recorded (STATE a))\<lparr>gameOver := True, currentGuessWord := ''ERROR'',
                                                  feedbackState := errorFeedback\<rparr>\<rparr>)) \<and>
         (n = 1 \<longrightarrow>
            int32_view h2 (int (currentCandidatesB (WASM_PTR a))) 1 = Inr [v] \<longrightarrow>
            readAtIndex h2 (WASM_PTR a) v = Inr w \<longrightarrow>
            (\<exists>word. handleSubmitFeedback D calc filt eventKey a =
               Inr (a\<lparr>Module := Some h2,
                      STATE := (recorded (STATE a))\<lparr>gameOver := True, currentGuessWord := word,
                                                   feedbackState := greenFeedback\<rparr>\<rparr>))) \<and>
         (2 \<le> n \<longrightarrow>
            int32_view h2 (int (currentCandidatesB (WASM_PTR a))) n = Inr newC \<longrightarrow>
            handleSubmitFeedback D calc filt eventKey a =
              (case calculateBestGuess D calc
                      (a\<lparr>Module := Some h2, WASM_PTR := swappedPtr (WASM_PTR a),
                         STATE := (recorded (STATE a))\<lparr>currentCandidates := newC\<rparr>\<rparr>) of
                 Inl e \<Rightarrow> Inl e
               | Inr a2 \<Rightarrow> Inr (a2\<lparr>STATE := (STATE a2)\<lparr>feedbackState := blankFeedback\<rparr>\<rparr>)) \<and>
            (\<forall>a'. handleSubmitFeedback D calc filt eventKey a = Inr a' \<longrightarrow>
               \<not> gameOver (STATE a') \<and> \<not> isCalculating (STATE a') \<and>
               currentCandidates (STATE a') = newC \<and>
               feedbackState (STATE a') = blankFeedback \<and>
               WASM_PTR a' = swappedPtr (WASM_PTR a)))"
proof (intro conjI impI allI)
  assume "n = 0"
  then show "handleSubmitFeedback D calc filt eventKey a =
      Inr (a\<lparr>Module := Some h2,
             STATE := (recorded (STATE a))\<lparr>gameOver := True, currentGuessWord := ''ERROR'',
                                          feedbackState := errorFeedback\<rparr>\<rparr>)"
    by (simp add: handleSubmitFeedback_filtered [where filt = filt, OF assms])
next
  assume "n = 1" "int32_view h2 (int (currentCandidatesB (WASM_PTR a))) 1 = Inr [v]"
    "readAtIndex h2 (WASM_PTR a) v = Inr w"
  then have "handleSubmitFeedback D calc filt eventKey a =
      Inr (a\<lparr>Module := Some h2,
             STATE := (recorded (STATE a))\<lparr>gameOver := True,
                        currentGuessWord := intVecToString (LETTERS D) w,
                        feedbackState := greenFeedback\<rparr>\<rparr>)"
    by (simp add: handleSubmitFeedback_filtered [where filt = filt, OF assms])
  then show "\<exists>word. handleSubmitFeedback D calc filt eventKey a =
      Inr (a\<lparr>Module := Some h2,
             STATE := (recorded (STATE a))\<lparr>gameOver := True, currentGuessWord := word,
                                          feedbackState := greenFeedback\<rparr>\<rparr>)"
    by blast
next
  assume n: "2 \<le> n" and v: "int32_view h2 (int (currentCandidatesB (WASM_PTR a))) n = Inr newC"
  let ?a1 = "a\<lparr>Module := Some h2, WASM_PTR := swappedPtr (WASM_PTR a),
                STATE := (recorded (STATE a))\<lparr>currentCandidates := newC\<rparr>\<rparr>"
  show eq: "handleSubmitFeedback D calc filt eventKey a =
      (case calculateBestGuess D calc ?a1 of
         Inl e \<Rightarrow> Inl e
       | Inr a2 \<Rightarrow> Inr (a2\<lparr>STATE := (STATE a2)\<lparr>feedbackState := blankFeedback\<rparr>\<rparr>))"
    using n v by (simp add: handleSubmitFeedback_filtered [where filt = filt, OF assms])
  fix a' assume r: "handleSubmitFeedback D calc filt eventKey a = Inr a'"
  then obtain a2 where a2: "calculateBestGuess D calc ?a1 = Inr a2"
    and a': "a' = a2\<lparr>STATE := (STATE a2)\<lparr>feedbackState := blankFeedback\<rparr>\<rparr>"
    unfolding eq by (auto split: sum.splits)
  have len: "length newC \<noteq> 1"
    using int32_view_length [OF v] n by simp
  have fr: "WASM_PTR a2 = WASM_PTR ?a1 \<and>
         currentCandidates (STATE a2) = currentCandidates (STATE ?a1) \<and>
         feedbackState (STATE a2) = feedbackState (STATE ?a1) \<and>
         history (STATE a2) = history (STATE ?a1) \<and>
         gameOver (STATE a2) = gameOver (STATE ?a1) \<and>
         (length (currentCandidates (STATE ?a1)) \<noteq> 1 \<longrightarrow> \<not> isCalculating (STATE a2))"
    using a2 by (rule calculateBestGuess_frame)
  show "\<not> gameOver (STATE a')" using fr assms(3) by (simp add: a' recorded_def)
  show "\<not> isCalculating (STATE a')" using fr len by (simp add: a')
  show "currentCandidates (STATE a') = newC" using fr by (simp add: a')
  show "feedbackState (STATE a') = blankFeedback" by (simp add: a')
  show "WASM_PTR a' = swappedPtr (WASM_PTR a)" using fr by (simp add: a')
qed

theorem submit_transitions_witness:
  "handleSubmitFeedback exampleData exampleScores keepNone None exampleApp =
     Inr (exampleApp\<lparr>Module := Some exampleHeap1,
            STATE := (recorded exampleState)\<lparr>gameOver := True, currentGuessWord := ''ERROR'',
                                              feedbackState := errorFeedback\<rparr>\<rparr>) \<and>
   (\<exists>word. handleSubmitFeedback exampleData exampleScores (keepEntry 1) None exampleApp =
     Inr (exampleApp\<lparr>Module := Some (exampleHeap1[42 := 5]),
            STATE := (recorded exampleState)\<lparr>gameOver := True, currentGuessWord := word,
                                              feedbackState := greenFeedback\<rparr>\<rparr>)) \<and>
   handleSubmitFeedback exampleData exampleScores keepAll None exampleApp =
     Inr (exampleApp\<lparr>Module := Some exampleHeap3, WASM_PTR := swappedPtr examplePtr,
            STATE := (recorded exampleState)\<lparr>currentGuessWord := ''BBBBB''\<rparr>\<rparr>)"
proof -
  have key: "None \<in> {None, Some [], Some ''Enter''}" by simp
  note none = submit_transitions [where filt = keepNone and D = exampleData and calc = exampleScores,
      OF key ex_app_fields(1) ex_active ex_heap_set ex_keepNone]
  note entry = submit_transitions [where filt = "keepEntry 1" and D = exampleData
      and calc = exampleScores and v = 5 and w = "[6, 6, 6, 6, 6]",
      OF key ex_app_fields(1) ex_active ex_heap_set ex_keepEntry]
  note all = submit_transitions [where filt = keepAll and D = exampleData and calc = exampleScores
      and newC = "[0, 5, 15, 25]",
      OF key ex_app_fields(1) ex_active ex_heap_set ex_keepAll]
  have "handleSubmitFeedback exampleData exampleScores keepNone None exampleApp =
     Inr (exampleApp\<lparr>Module := Some exampleHeap1,
            STATE := (recorded exampleState)\<lparr>gameOver := True, currentGuessWord := ''ERROR'',
                                              feedbackState := errorFeedback\<rparr>\<rparr>)"
    using none by (simp add: ex_app_fields)
  moreover have "\<exists>word. handleSubmitFeedback exampleData exampleScores (keepEntry 1) None exampleApp =
     Inr (exampleApp\<lparr>Module := Some (exampleHeap1[42 := 5]),
            STATE := (recorded exampleState)\<lparr>gameOver := True, currentGuessWord := word,
                                              feedbackState := greenFeedback\<rparr>\<rparr>)"
    using entry ex_keepEntry_view by (simp add: ex_app_fields)
  moreover have "handleSubmitFeedback exampleData exampleScores keepAll None exampleApp =
     Inr (exampleApp\<lparr>Module := Some exampleHeap3, WASM_PTR := swappedPtr examplePtr,
            STATE := (recorded exampleState)\<lparr>currentGuessWord := ''BBBBB''\<rparr>\<rparr>)"
  proof -
    have "handleSubmitFeedback exampleData exampleScores keepAll None exampleApp =
      (case calculateBestGuess exampleData exampleScores
              (exampleApp\<lparr>Module := Some exampleHeap2, WASM_PTR := swappedPtr (WASM_PTR exampleApp),
                 STATE := (recorded (STATE exampleApp))\<lparr>currentCandidates := [0, 5, 15, 25]\<rparr>\<rparr>) of
         Inl e \<Rightarrow> Inl e
       | Inr a2 \<Rightarrow> Inr (a2\<lparr>STATE := (STATE a2)\<lparr>feedbackState := blankFeedback\<rparr>\<rparr>))"
      using all ex_keepAll_view by simp
    then show ?thesis
      unfolding ex_next_guess by (simp add: recorded_def exampleState_def)
  qed
  ultimately show ?thesis by blast
qed

text \<open>
  The transition of the specification does not hold for every submission from the
  active state. With five green tiles the filter is not applied: where it would
  return 0 the state is not the error state, and where it would return 4 the game
  is over, not active.
\<close>

theorem submit_all_green_counterexample:
  "\<not> gameOver (STATE greenApp) \<and> \<not> isCalculating (STATE greenApp) \<and>
   feedbackState (STATE greenApp) = greenFeedback \<and>
   fst (keepNone exampleHeap1 240 (toInt32 (encodePattern greenFeedback)) 0 144 4 168) = 0 \<and>
   handleSubmitFeedback exampleData exampleScores keepNone None greenApp =
     Inr (greenApp\<lparr>STATE := (recorded (STATE greenApp))\<lparr>gameOver := True\<rparr>\<rparr>) \<and>
   currentGuessWord ((recorded (STATE greenApp))\<lparr>gameOver := True\<rparr>) \<noteq> ''ERROR'' \<and>
   fst (keepAll exampleHeap1 240 (toInt32 (encodePattern greenFeedback)) 0 144 4 168) = 4 \<and>
   handleSubmitFeedback exampleData exampleScores keepAll None greenApp =
     Inr (greenApp\<lparr>STATE := (recorded (STATE greenApp))\<lparr>gameOver := True\<rparr>\<rparr>) \<and>
   gameOver ((recorded (STATE greenApp))\<lparr>gameOver := True\<rparr>)"
  by code_simp

text \<open>
  Claim C3. The two reads do not agree. For the entry 5 in the table of six words,
  the short-circuit of \<open>calculateBestGuess\<close> reads the five integers at flat
  offset 5 (the second word, BBBBB), and the solved branch of the submit handler
  reads those at flat offset 25 (the sixth word, FFFFF).
\<close>

theorem lookup_offsets_differ:
  "currentCandidates (STATE singleApp) = [5] \<and>
   readAtStartPos exampleHeap examplePtr 5 = Inr [2, 2, 2, 2, 2] \<and>
   calculateBestGuess exampleData exampleScores singleApp =
     Inr (singleApp\<lparr>STATE := (STATE singleApp)\<lparr>currentGuessWord := ''BBBBB''\<rparr>\<rparr>) \<and>
   (exampleHeap1[42 := 5]) ! (currentCandidatesB examplePtr div 4) = 5 \<and>
   readAtIndex (exampleHeap1[42 := 5]) examplePtr 5 = Inr [6, 6, 6, 6, 6] \<and>
   handleSubmitFeedback exampleData exampleScores (keepEntry 1) None exampleApp =
     Inr (exampleApp\<lparr>Module := Some (exampleHeap1[42 := 5]),
            STATE := (recorded exampleState)\<lparr>gameOver := True, currentGuessWord := ''FFFFF'',
                                              feedbackState := greenFeedback\<rparr>\<rparr>)"
  by code_simp

section \<open>Properties of the initialization\<close>

lemma heap_set_fits:
  assumes "offset + length source \<le> length h"
  shows "\<exists>h'. heap_set h source offset = Inr h' \<and> length h' = length h"
  using assms by (simp add: heap_set_def)

lemma block_fits:
  assumes "blockInHeap malloc" "k \<le> n"
  shows "fst (malloc h (n * 4)) div 4 + k \<le> length (snd (malloc h (n * 4)))"
proof -
  have "fst (malloc h (n * 4)) + n * 4 \<le> 4 * length (snd (malloc h (n * 4)))"
    using assms(1) by (simp add: blockInHeap_def)
  then show ?thesis using assms(2) by linarith
qed

lemma malloc_grows: "blockInHeap malloc \<Longrightarrow> length h \<le> length (snd (malloc h n))"
  by (simp add: blockInHeap_def)

lemma bumpMalloc_blocks: "blockInHeap bumpMalloc"
  unfolding blockInHeap_def bumpMalloc_def by (simp, presburger)

text \<open>
  Claim C2, as the code has it. The initialization tests nothing about its tables.
  With the module loaded, an allocator whose blocks lie inside the heap, and no more
  initial candidates than \<open>N_TOTAL_GUESSES\<close> (the size of the buffer they are
  copied to), it succeeds for every guess table and every mask, whatever their
  lengths, and sets \<open>STATE.currentCandidates\<close> to the initial candidates.
\<close>

theorem initialize_no_validation:
  assumes "Module a = Some h0"
    and "blockInHeap malloc"
    and "length (INITIAL_CANDIDATE_START_POSITIONS D) \<le> N_TOTAL_GUESSES D"
  shows "\<exists>a'. initializeWasmMemory D malloc a = Inr a' \<and>
              STATE a' = (STATE a)\<lparr>currentCandidates := INITIAL_CANDIDATE_START_POSITIONS D\<rparr>"
proof -
  define m1 where "m1 = malloc h0 (length (ALL_GUESSES_FLAT D) * 4)"
  obtain h1 where h1: "heap_set (snd m1) (map Num (ALL_GUESSES_FLAT D)) (fst m1 div 4) = Inr h1"
    using heap_set_fits [of "fst m1 div 4" "map Num (ALL_GUESSES_FLAT D)" "snd m1"]
      block_fits [where h = h0 and n = "length (ALL_GUESSES_FLAT D)" and k = "length (ALL_GUESSES_FLAT D)", OF assms(2) order_refl]
    unfolding m1_def by auto
  define m2 where "m2 = malloc h1 (length (IS_POSSIBLE_ANSWER_MASK D) * 4)"
  obtain h2 where h2: "heap_set (snd m2) (map Num (IS_POSSIBLE_ANSWER_MASK D)) (fst m2 div 4) = Inr h2"
    using heap_set_fits [of "fst m2 div 4" "map Num (IS_POSSIBLE_ANSWER_MASK D)" "snd m2"]
      block_fits [where h = h1 and n = "length (IS_POSSIBLE_ANSWER_MASK D)" and k = "length (IS_POSSIBLE_ANSWER_MASK D)", OF assms(2) order_refl]
    unfolding m2_def by auto
  define m3 where "m3 = malloc h2 (N_TOTAL_GUESSES D * 4)"
  define m4 where "m4 = malloc (snd m3) (N_TOTAL_GUESSES D * 4)"
  have "fst m3 div 4 + length (INITIAL_CANDIDATE_START_POSITIONS D) \<le> length (snd m3)"
    unfolding m3_def using assms(2,3) by (rule block_fits)
  also have "\<dots> \<le> length (snd m4)"
    unfolding m4_def using assms(2) by (rule malloc_grows)
  finally obtain h3 where
    h3: "heap_set (snd m4) (map Num (INITIAL_CANDIDATE_START_POSITIONS D)) (fst m3 div 4) = Inr h3"
    using heap_set_fits [of "fst m3 div 4" "map Num (INITIAL_CANDIDATE_START_POSITIONS D)" "snd m4"]
    by auto
  show ?thesis
    using assms(1) h1 h2 h3
    by (simp add: initializeWasmMemory_def Let_def m1_def m2_def m3_def m4_def)
qed

lemma ex_initialize: "initializeWasmMemory exampleData bumpMalloc initialApp = Inr exampleApp"
  by code_simp

theorem initialize_no_validation_witness:
  "Module initialApp = Some [] \<and> blockInHeap bumpMalloc \<and>
   length (INITIAL_CANDIDATE_START_POSITIONS exampleData) \<le> N_TOTAL_GUESSES exampleData \<and>
   initializeWasmMemory exampleData bumpMalloc initialApp = Inr exampleApp \<and>
   STATE exampleApp = (STATE initialApp)\<lparr>currentCandidates := INITIAL_CANDIDATE_START_POSITIONS exampleData\<rparr>"
proof -
  have m: "Module initialApp = Some []" by (simp add: initialApp_def)
  have l: "length (INITIAL_CANDIDATE_START_POSITIONS exampleData) \<le> N_TOTAL_GUESSES exampleData"
    by (simp add: exampleData_def)
  show ?thesis
    using initialize_no_validation [OF m bumpMalloc_blocks l] ex_initialize m l bumpMalloc_blocks
    by auto
qed

text \<open>
  Tables with a word of three letters and a mask longer than the table are accepted.
\<close>

theorem initialize_accepts_malformed_tables:
  "length (ALL_GUESSES_FLAT badData) \<noteq> 5 * N_TOTAL_GUESSES badData \<and>
   length (IS_POSSIBLE_ANSWER_MASK badData) \<noteq> N_TOTAL_GUESSES badData \<and>
   initializeWasmMemory badData bumpMalloc initialApp = Inr badApp"
  by code_simp

end
